theory Spec2Isabelle
  imports Complex_Main
begin

section \<open>JavaScript numbers\<close>

text \<open>
  A JavaScript \<^verbatim>\<open>number\<close> is modelled as an exact rational, or one of the three special
  values \<^verbatim>\<open>NaN\<close>, \<^verbatim>\<open>-Infinity\<close>, \<^verbatim>\<open>Infinity\<close>. The money arithmetic of the calculator goes
  through decimal.js (the \<^verbatim>\<open>precise*\<close> functions), which computes on decimal expansions and
  rounds to two places, so finite values are taken exactly: the binary rounding of the
  few raw operators the source uses (\<^verbatim>\<open>salary * 0.5\<close>, \<^verbatim>\<open>x / 12\<close>) and the 28-digit working
  precision of decimal.js are not modelled. \<^verbatim>\<open>-0\<close> is identified with \<^verbatim>\<open>0\<close>.
\<close>

datatype number = NaN | NegInf | Fin rat | PosInf

fun isNaN :: "number \<Rightarrow> bool" where
  "isNaN NaN = True"
| "isNaN _ = False"

text \<open>The operators \<^verbatim>\<open>-x\<close>, \<^verbatim>\<open>a + b\<close>, \<^verbatim>\<open>a - b\<close>, \<^verbatim>\<open>a * b\<close>, \<^verbatim>\<open>a / b\<close>; decimal.js
  \<^verbatim>\<open>plus\<close>, \<^verbatim>\<open>minus\<close>, \<^verbatim>\<open>times\<close>, \<^verbatim>\<open>dividedBy\<close> treat the special values the same way.\<close>

fun jneg :: "number \<Rightarrow> number" where
  "jneg NaN = NaN"
| "jneg NegInf = PosInf"
| "jneg PosInf = NegInf"
| "jneg (Fin a) = Fin (- a)"

fun jadd :: "number \<Rightarrow> number \<Rightarrow> number" where
  "jadd (Fin a) (Fin b) = Fin (a + b)"
| "jadd NaN _ = NaN"
| "jadd _ NaN = NaN"
| "jadd PosInf NegInf = NaN"
| "jadd NegInf PosInf = NaN"
| "jadd PosInf _ = PosInf"
| "jadd _ PosInf = PosInf"
| "jadd NegInf _ = NegInf"
| "jadd _ NegInf = NegInf"

definition jsub :: "number \<Rightarrow> number \<Rightarrow> number" where
  "jsub a b = jadd a (jneg b)"

fun jmul :: "number \<Rightarrow> number \<Rightarrow> number" where
  "jmul (Fin a) (Fin b) = Fin (a * b)"
| "jmul NaN _ = NaN"
| "jmul _ NaN = NaN"
| "jmul (Fin a) PosInf = (if a = 0 then NaN else if 0 < a then PosInf else NegInf)"
| "jmul (Fin a) NegInf = (if a = 0 then NaN else if 0 < a then NegInf else PosInf)"
| "jmul PosInf (Fin b) = (if b = 0 then NaN else if 0 < b then PosInf else NegInf)"
| "jmul NegInf (Fin b) = (if b = 0 then NaN else if 0 < b then NegInf else PosInf)"
| "jmul PosInf PosInf = PosInf"
| "jmul NegInf NegInf = PosInf"
| "jmul PosInf NegInf = NegInf"
| "jmul NegInf PosInf = NegInf"

text \<open>Division; the sign of a zero divisor is not modelled (\<^verbatim>\<open>x / 0\<close> is taken as
  \<^verbatim>\<open>x / +0\<close>). \<^verbatim>\<open>preciseDivide\<close> returns before dividing by zero.\<close>

fun jdiv :: "number \<Rightarrow> number \<Rightarrow> number" where
  "jdiv (Fin a) (Fin b) =
     (if b = 0 then (if a = 0 then NaN else if 0 < a then PosInf else NegInf)
      else Fin (a / b))"
| "jdiv NaN _ = NaN"
| "jdiv _ NaN = NaN"
| "jdiv (Fin a) PosInf = Fin 0"
| "jdiv (Fin a) NegInf = Fin 0"
| "jdiv PosInf (Fin b) = (if 0 \<le> b then PosInf else NegInf)"
| "jdiv NegInf (Fin b) = (if 0 \<le> b then NegInf else PosInf)"
| "jdiv PosInf PosInf = NaN"
| "jdiv PosInf NegInf = NaN"
| "jdiv NegInf PosInf = NaN"
| "jdiv NegInf NegInf = NaN"

text \<open>The comparisons \<^verbatim>\<open>a < b\<close> and \<^verbatim>\<open>a <= b\<close>: false as soon as one side is
  \<^verbatim>\<open>NaN\<close>. \<^verbatim>\<open>a > b\<close> is \<open>jless b a\<close> and \<^verbatim>\<open>a >= b\<close> is \<open>jle b a\<close>.\<close>

fun jless :: "number \<Rightarrow> number \<Rightarrow> bool" where
  "jless (Fin a) (Fin b) = (a < b)"
| "jless NaN _ = False"
| "jless _ NaN = False"
| "jless _ NegInf = False"
| "jless NegInf _ = True"
| "jless PosInf _ = False"
| "jless _ PosInf = True"

fun jle :: "number \<Rightarrow> number \<Rightarrow> bool" where
  "jle (Fin a) (Fin b) = (a \<le> b)"
| "jle NaN _ = False"
| "jle _ NaN = False"
| "jle NegInf _ = True"
| "jle _ PosInf = True"
| "jle _ NegInf = False"
| "jle PosInf _ = False"

text \<open>\<^verbatim>\<open>Math.min\<close>, \<^verbatim>\<open>Math.max\<close>, \<^verbatim>\<open>Math.floor\<close>, \<^verbatim>\<open>Math.abs\<close>.\<close>

definition Math_min :: "number \<Rightarrow> number \<Rightarrow> number" where
  "Math_min a b = (if isNaN a \<or> isNaN b then NaN else if jless b a then b else a)"

definition Math_max :: "number \<Rightarrow> number \<Rightarrow> number" where
  "Math_max a b = (if isNaN a \<or> isNaN b then NaN else if jless a b then b else a)"

fun Math_floor :: "number \<Rightarrow> number" where
  "Math_floor (Fin a) = Fin (of_int \<lfloor>a\<rfloor>)"
| "Math_floor x = x"

fun Math_abs :: "number \<Rightarrow> number" where
  "Math_abs (Fin a) = Fin \<bar>a\<bar>"
| "Math_abs NaN = NaN"
| "Math_abs _ = PosInf"

text \<open>Truthiness of a number: \<^verbatim>\<open>!x\<close> holds for \<^verbatim>\<open>0\<close> and \<^verbatim>\<open>NaN\<close>.\<close>

fun falsy :: "number \<Rightarrow> bool" where
  "falsy NaN = True"
| "falsy (Fin a) = (a = 0)"
| "falsy _ = False"

section \<open>Precision arithmetic (\<^verbatim>\<open>src/utils/taxCodeValidator.ts\<close>, lines 792 to 956)\<close>

text \<open>\<^verbatim>\<open>Decimal.toDecimalPlaces(2)\<close> under \<^verbatim>\<open>ROUND_HALF_UP\<close>: to the nearest hundredth,
  ties away from zero; the special values pass through.\<close>

definition round2 :: "rat \<Rightarrow> rat" where
  "round2 q = (if 0 \<le> q then of_int \<lfloor>q * 100 + 1 / 2\<rfloor> / 100
               else - (of_int \<lfloor>- q * 100 + 1 / 2\<rfloor> / 100))"

fun toDecimalPlaces :: "number \<Rightarrow> number" where
  "toDecimalPlaces (Fin q) = Fin (round2 q)"
| "toDecimalPlaces x = x"

definition preciseAdd :: "number \<Rightarrow> number \<Rightarrow> number" where
  "preciseAdd a b = (if isNaN a \<or> isNaN b then Fin 0 else toDecimalPlaces (jadd a b))"

definition preciseSubtract :: "number \<Rightarrow> number \<Rightarrow> number" where
  "preciseSubtract a b = (if isNaN a \<or> isNaN b then Fin 0 else toDecimalPlaces (jsub a b))"

definition preciseMultiply :: "number \<Rightarrow> number \<Rightarrow> number" where
  "preciseMultiply a b = (if isNaN a \<or> isNaN b then Fin 0 else toDecimalPlaces (jmul a b))"

definition preciseDivide :: "number \<Rightarrow> number \<Rightarrow> number" where
  "preciseDivide a b =
     (if b = Fin 0 then Fin 0
      else if isNaN a \<or> isNaN b then Fin 0
      else toDecimalPlaces (jdiv a b))"

definition preciseRound :: "number \<Rightarrow> number" where
  "preciseRound v = (if isNaN v then Fin 0 else toDecimalPlaces v)"

section \<open>National Insurance (\<^verbatim>\<open>src/utils/taxCodeValidator.ts\<close>, lines 406 to 430 and 627 to 657;
  \<^verbatim>\<open>src/utils/niThresholdHandler.ts\<close>)\<close>

record ThresholdGroup =
  WEEKLY :: number
  MONTHLY :: number
  ANNUAL :: number

record NIThresholds =
  PRIMARY_THRESHOLD :: ThresholdGroup
  UPPER_EARNINGS_LIMIT :: ThresholdGroup

text \<open>\<^verbatim>\<open>validateThresholdValue\<close> throws on a value that is not a number, is \<^verbatim>\<open>NaN\<close> or is
  negative; \<^verbatim>\<open>validateNIThresholds\<close> catches and falls back to \<^verbatim>\<open>DEFAULT_THRESHOLDS\<close>.
  The relationship checks only collect warnings and leave the thresholds as given.\<close>

definition DEFAULT_THRESHOLDS :: NIThresholds where
  "DEFAULT_THRESHOLDS =
     \<lparr>PRIMARY_THRESHOLD = \<lparr>WEEKLY = Fin 242, MONTHLY = Fin 1048, ANNUAL = Fin 12576\<rparr>,
      UPPER_EARNINGS_LIMIT = \<lparr>WEEKLY = Fin 967, MONTHLY = Fin 4189, ANNUAL = Fin 50268\<rparr>\<rparr>"

definition validThresholdValue :: "number \<Rightarrow> bool" where
  "validThresholdValue v = (\<not> (isNaN v \<or> jless v (Fin 0)))"

definition validThresholdGroup :: "ThresholdGroup \<Rightarrow> bool" where
  "validThresholdGroup g =
     (validThresholdValue (WEEKLY g) \<and> validThresholdValue (MONTHLY g)
      \<and> validThresholdValue (ANNUAL g))"

definition validateNIThresholds :: "NIThresholds \<Rightarrow> NIThresholds" where
  "validateNIThresholds t =
     (if validThresholdGroup (PRIMARY_THRESHOLD t) \<and> validThresholdGroup (UPPER_EARNINGS_LIMIT t)
      then t else DEFAULT_THRESHOLDS)"

definition RAW_PRIMARY_THRESHOLD :: number where
  "RAW_PRIMARY_THRESHOLD = Fin 12570"

definition RAW_UPPER_EARNINGS_LIMIT :: number where
  "RAW_UPPER_EARNINGS_LIMIT = Fin 50270"

definition NI_THRESHOLDS :: NIThresholds where
  "NI_THRESHOLDS = validateNIThresholds
     \<lparr>PRIMARY_THRESHOLD =
        \<lparr>WEEKLY = jdiv RAW_PRIMARY_THRESHOLD (Fin 52),
         MONTHLY = jdiv RAW_PRIMARY_THRESHOLD (Fin 12),
         ANNUAL = RAW_PRIMARY_THRESHOLD\<rparr>,
      UPPER_EARNINGS_LIMIT =
        \<lparr>WEEKLY = jdiv RAW_UPPER_EARNINGS_LIMIT (Fin 52),
         MONTHLY = jdiv RAW_UPPER_EARNINGS_LIMIT (Fin 12),
         ANNUAL = RAW_UPPER_EARNINGS_LIMIT\<rparr>\<rparr>"

definition MAIN_RATE :: number where
  "MAIN_RATE = Fin (12 / 100)"

definition HIGHER_RATE :: number where
  "HIGHER_RATE = Fin (2 / 100)"

text \<open>\<^verbatim>\<open>calculateNI(monthlySalary, taxYearData)\<close>; the second argument is not read.\<close>

definition calculateNI :: "number \<Rightarrow> number" where
  "calculateNI monthlySalary =
     (if falsy monthlySalary \<or> isNaN monthlySalary \<or> jle monthlySalary (Fin 0) then Fin 0
      else
        let pt = MONTHLY (PRIMARY_THRESHOLD NI_THRESHOLDS);
            uel = MONTHLY (UPPER_EARNINGS_LIMIT NI_THRESHOLDS);
            ni1 = (if jless pt monthlySalary
                   then preciseAdd (Fin 0)
                          (preciseMultiply
                             (Math_min (preciseSubtract monthlySalary pt) (preciseSubtract uel pt))
                             MAIN_RATE)
                   else Fin 0);
            ni2 = (if jless uel monthlySalary
                   then preciseAdd ni1
                          (preciseMultiply (preciseSubtract monthlySalary uel) HIGHER_RATE)
                   else ni1)
        in preciseRound ni2)"

section \<open>Strings\<close>

text \<open>
  Tax codes are short ASCII strings. A string is a list of 8-bit characters;
  \<^verbatim>\<open>toUpperCase\<close> maps \<^verbatim>\<open>a\<close>..\<^verbatim>\<open>z\<close> to \<^verbatim>\<open>A\<close>..\<^verbatim>\<open>Z\<close> and leaves every other character
  alone (the case mappings of characters beyond ASCII are not modelled), and \<^verbatim>\<open>trim\<close>
  strips the white space of that range: tab, line feed, vertical tab, form feed,
  carriage return, space and no-break space.
\<close>

definition isSpace :: "char \<Rightarrow> bool" where
  "isSpace c = (c \<in> set [CHR 0x09, CHR 0x0A, CHR 0x0B, CHR 0x0C, CHR 0x0D, CHR 0x20, CHR 0xA0])"

definition trim :: "string \<Rightarrow> string" where
  "trim s = rev (dropWhile isSpace (rev (dropWhile isSpace s)))"

definition toUpperChar :: "char \<Rightarrow> char" where
  "toUpperChar c =
     (case map_of (zip ''abcdefghijklmnopqrstuvwxyz'' ''ABCDEFGHIJKLMNOPQRSTUVWXYZ'') c of
        Some u \<Rightarrow> u | None \<Rightarrow> c)"

definition toUpperCase :: "string \<Rightarrow> string" where
  "toUpperCase s = map toUpperChar s"

definition startsWith :: "string \<Rightarrow> string \<Rightarrow> bool" where
  "startsWith s p = (take (length p) s = p)"

definition endsWith :: "string \<Rightarrow> string \<Rightarrow> bool" where
  "endsWith s p = (length p \<le> length s \<and> drop (length s - length p) s = p)"

fun includes_str :: "string \<Rightarrow> string \<Rightarrow> bool" where
  "includes_str [] p = (p = [])"
| "includes_str (c # cs) p = (startsWith (c # cs) p \<or> includes_str cs p)"

definition isDigit :: "char \<Rightarrow> bool" where
  "isDigit c = (c \<in> set ''0123456789'')"

text \<open>\<^verbatim>\<open>s.match(/\d+/)\<close>: the first maximal run of digits, if there is one.\<close>

definition matchDigits :: "string \<Rightarrow> string option" where
  "matchDigits s =
     (let r = takeWhile isDigit (dropWhile (\<lambda>c. \<not> isDigit c) s)
      in if r = [] then None else Some r)"

text \<open>\<^verbatim>\<open>parseInt(ds, 10)\<close> on a string of digits, as an exact integer (the source's
  result is the nearest double, and \<^verbatim>\<open>Infinity\<close> beyond 308 digits).\<close>

definition digitValue :: "char \<Rightarrow> int" where
  "digitValue c = of_char c - 48"

definition parseInt :: "string \<Rightarrow> int" where
  "parseInt ds = foldl (\<lambda>n c. 10 * n + digitValue c) 0 ds"

section \<open>Tax code parser (\<^verbatim>\<open>src/utils/taxCodeParser.ts\<close>)\<close>

record TaxCodeInfo =
  baseAllowance :: number
  isScottish :: bool
  isWelsh :: bool
  isNegativeAllowance :: bool
  hasMarriageAllowance :: bool
  marriageAllowanceAmount :: number
  specialCodeType :: "string option"
  taxRate :: "number option"
  isNonCumulative :: bool

definition parseBaseAllowance :: "string \<Rightarrow> number" where
  "parseBaseAllowance code =
     (if code = ''BR'' \<or> code = ''D0'' \<or> code = ''D1'' \<or> code = ''NT'' then Fin 0
      else
        let (prefix, cleanCode) =
              (if startsWith code ''SK'' then (''SK'', drop 2 code)
               else if startsWith code ''S'' then (''S'', drop 1 code)
               else if startsWith code ''C'' then (''C'', drop 1 code)
               else if startsWith code ''K'' then (''K'', drop 1 code)
               else ([], code))
        in case matchDigits cleanCode of
             None \<Rightarrow> Fin 12570
           | Some numericMatch \<Rightarrow>
               let numericValue = Fin (of_int (parseInt numericMatch) * 10)
               in if prefix = ''K'' \<or> prefix = ''SK'' then jneg numericValue
                  else if includes_str code ''T'' \<and> code \<notin> set [''NT'', ''0T''] then numericValue
                  else numericValue)"

definition parseTaxCode :: "string \<Rightarrow> TaxCodeInfo" where
  "parseTaxCode taxCode =
     (if taxCode = [] \<or> trim taxCode = [] then
        \<lparr>baseAllowance = Fin 12570, isScottish = False, isWelsh = False,
         isNegativeAllowance = False, hasMarriageAllowance = False,
         marriageAllowanceAmount = Fin 0, specialCodeType = None, taxRate = None,
         isNonCumulative = False\<rparr>
      else
        let normalizedCode = trim (toUpperCase taxCode);
            scottish = startsWith normalizedCode ''S'';
            welsh = startsWith normalizedCode ''C'';
            negative = includes_str normalizedCode ''K'';
            (special, rate, allowance) =
              (if normalizedCode = ''BR'' then (Some ''BR'', Some (Fin 20), Fin 0)
               else if normalizedCode = ''D0'' then (Some ''D0'', Some (Fin 40), Fin 0)
               else if normalizedCode = ''D1'' then (Some ''D1'', Some (Fin 45), Fin 0)
               else if includes_str normalizedCode ''NT'' then (Some ''NT'', Some (Fin 0), PosInf)
               else if startsWith normalizedCode ''0T'' then (Some ''0T'', None, Fin 0)
               else (None, None, parseBaseAllowance normalizedCode));
            marriage = (\<not> negative \<and>
                        (endsWith normalizedCode ''M'' \<or> endsWith normalizedCode ''N''));
            marriageAmount =
              (if marriage then (if endsWith normalizedCode ''M'' then Fin 1260 else Fin (- 1260))
               else Fin 0);
            nonCumulative = (endsWith normalizedCode ''W1'' \<or> endsWith normalizedCode ''M1''
                             \<or> includes_str normalizedCode ''X'')
        in \<lparr>baseAllowance = allowance, isScottish = scottish, isWelsh = welsh,
            isNegativeAllowance = negative, hasMarriageAllowance = marriage,
            marriageAllowanceAmount = marriageAmount, specialCodeType = special,
            taxRate = rate, isNonCumulative = nonCumulative\<rparr>)"

section \<open>Tax code validator (\<^verbatim>\<open>src/utils/taxCodeValidator.ts\<close>, lines 22 to 69)\<close>

record ValidationResult =
  isValid :: bool
  message :: "string option"

text \<open>\<^verbatim>\<open>\d{1,4}\<close> over a whole string.\<close>

definition digits_1_4 :: "string \<Rightarrow> bool" where
  "digits_1_4 ds = (1 \<le> length ds \<and> length ds \<le> 4 \<and> list_all isDigit ds)"

text \<open>\<^verbatim>\<open>/^(BR|D0|D1|NT|0T)$/\<close>\<close>

definition matchesSpecial :: "string \<Rightarrow> bool" where
  "matchesSpecial s = (s \<in> set [''BR'', ''D0'', ''D1'', ''NT'', ''0T''])"

text \<open>\<^verbatim>\<open>/^K\d{1,4}$/\<close>, \<^verbatim>\<open>/^SK\d{1,4}$/\<close>, \<^verbatim>\<open>/^CK\d{1,4}$/\<close>: the given prefix, then one to
  four digits.\<close>

definition matchesKCode :: "string \<Rightarrow> string \<Rightarrow> bool" where
  "matchesKCode pre s = (startsWith s pre \<and> digits_1_4 (drop (length pre) s))"

text \<open>\<^verbatim>\<open>/^\d{1,4}[TLMNWY](?:1|W1|M1)?$/\<close>, after the given region prefix (empty,
  \<^verbatim>\<open>S\<close> or \<^verbatim>\<open>C\<close>): the digits of the match are the maximal run of digits, since a letter
  has to follow them.\<close>

definition matchesStandard :: "string \<Rightarrow> string \<Rightarrow> bool" where
  "matchesStandard pre s =
     (startsWith s pre \<and>
      (let body = drop (length pre) s;
           ds = takeWhile isDigit body
       in digits_1_4 ds \<and>
          (case dropWhile isDigit body of
             [] \<Rightarrow> False
           | l # suffix \<Rightarrow> l \<in> set ''TLMNWY'' \<and> suffix \<in> set [[], ''1'', ''W1'', ''M1''])))"

definition validateTaxCode :: "string \<Rightarrow> ValidationResult" where
  "validateTaxCode taxCode =
     (if taxCode = [] \<or> trim taxCode = [] then \<lparr>isValid = True, message = None\<rparr>
      else
        let normalizedCode = toUpperCase taxCode
        in if matchesSpecial normalizedCode then \<lparr>isValid = True, message = None\<rparr>
           else if matchesKCode ''K'' normalizedCode then \<lparr>isValid = True, message = None\<rparr>
           else if matchesKCode ''SK'' normalizedCode then \<lparr>isValid = True, message = None\<rparr>
           else if matchesKCode ''CK'' normalizedCode then \<lparr>isValid = True, message = None\<rparr>
           else if matchesStandard [] normalizedCode then \<lparr>isValid = True, message = None\<rparr>
           else if matchesStandard ''S'' normalizedCode then \<lparr>isValid = True, message = None\<rparr>
           else if matchesStandard ''C'' normalizedCode then \<lparr>isValid = True, message = None\<rparr>
           else \<lparr>isValid = False, message = Some ''Invalid tax code format''\<rparr>)"

section \<open>Band tables and tax-year data (\<^verbatim>\<open>src/utils/taxCodeValidator.ts\<close>, lines 378 to 404)\<close>

text \<open>A band of a region's table: \<^verbatim>\<open>{name, rate, from, to}\<close>, where \<^verbatim>\<open>to\<close> is a number or
  the string \<^verbatim>\<open>'unlimited'\<close>. The fields are called \<open>bandName\<close>, \<open>bandRate\<close>,
  \<open>bandFrom\<close>, \<open>bandTo\<close> here.\<close>

datatype bound = Num number | Str string

record BandDef =
  bandName :: string
  bandRate :: number
  bandFrom :: number
  bandTo :: bound

definition UK_TAX_BANDS :: "BandDef list" where
  "UK_TAX_BANDS =
     [\<lparr>bandName = ''Personal Allowance'', bandRate = Fin 0, bandFrom = Fin 0,
       bandTo = Num (Fin 12570)\<rparr>,
      \<lparr>bandName = ''Basic Rate'', bandRate = Fin 20, bandFrom = Fin 12571,
       bandTo = Num (Fin 50270)\<rparr>,
      \<lparr>bandName = ''Higher Rate'', bandRate = Fin 40, bandFrom = Fin 50271,
       bandTo = Num (Fin 125140)\<rparr>,
      \<lparr>bandName = ''Additional Rate'', bandRate = Fin 45, bandFrom = Fin 125141,
       bandTo = Str ''unlimited''\<rparr>]"

record TaxRegion =
  regionName :: string
  bands :: "BandDef list"

record TaxYearConfig =
  paTaperThreshold :: number
  paTaperRate :: number

datatype RegionCode = UK | Scotland | Wales

record TaxYearData =
  regions :: "RegionCode \<Rightarrow> TaxRegion"
  config :: TaxYearConfig

section \<open>Allowance and band engines (\<^verbatim>\<open>src/utils/taxCodeValidator.ts\<close>, lines 582 to 726)\<close>

definition calculatePersonalAllowance :: "number \<Rightarrow> TaxCodeInfo \<Rightarrow> TaxYearData \<Rightarrow> number" where
  "calculatePersonalAllowance salary taxCodeInfo taxYearData =
     (let allowance = baseAllowance taxCodeInfo
      in if jless (paTaperThreshold (config taxYearData)) salary
         then
           let reduction =
                 Math_min allowance
                   (Math_floor (jmul (jsub salary (paTaperThreshold (config taxYearData)))
                                     (paTaperRate (config taxYearData))))
           in preciseSubtract allowance reduction
         else allowance)"

text \<open>The loop of \<^verbatim>\<open>calculateIncomeTax\<close> over the bands, with its two accumulators; it
  leaves at the first band after which nothing remains.\<close>

fun incomeTaxLoop :: "BandDef list \<Rightarrow> number \<Rightarrow> number \<Rightarrow> number" where
  "incomeTaxLoop [] remainingAmount totalTax = totalTax"
| "incomeTaxLoop (b # bs) remainingAmount totalTax =
     (let bandAmount =
            Math_min (Math_max (Fin 0) remainingAmount)
              (case bandTo b of Num t \<Rightarrow> jsub t (bandFrom b) | Str _ \<Rightarrow> remainingAmount);
          bandTax = preciseMultiply bandAmount (preciseMultiply (bandRate b) (Fin (1 / 100)));
          totalTax' = preciseAdd totalTax bandTax;
          remainingAmount' = preciseSubtract remainingAmount bandAmount
      in if jle remainingAmount' (Fin 0) then totalTax'
         else incomeTaxLoop bs remainingAmount' totalTax')"

definition calculateIncomeTax :: "number \<Rightarrow> TaxRegion \<Rightarrow> number" where
  "calculateIncomeTax taxableAmount taxRegion =
     preciseRound (incomeTaxLoop (bands taxRegion) taxableAmount (Fin 0))"

text \<open>A row of a displayed breakdown: \<^verbatim>\<open>{band, rate, from, to, amount, tax}\<close>. The \<^verbatim>\<open>rate\<close>
  of the source is the string of a number followed by a percent sign; the number is
  kept. \<^verbatim>\<open>from\<close> and \<^verbatim>\<open>to\<close> hold a number or a string, or, in the rows of
  \<^verbatim>\<open>calculateNIBands\<close>, a group of thresholds.\<close>

datatype cell = Bound bound | Group ThresholdGroup

record TaxBand =
  band :: string
  ratePercent :: number
  rowFrom :: cell
  rowTo :: cell
  amount :: number
  tax :: number

fun taxBandsLoop :: "BandDef list \<Rightarrow> number \<Rightarrow> TaxBand list" where
  "taxBandsLoop [] remainingAmount = []"
| "taxBandsLoop (b # bs) remainingAmount =
     (let bandWidth = (case bandTo b of Num t \<Rightarrow> jsub t (bandFrom b) | Str _ \<Rightarrow> PosInf);
          amountInBand = Math_min (Math_max (Fin 0) remainingAmount) bandWidth;
          taxInBand = preciseMultiply amountInBand (preciseMultiply (bandRate b) (Fin (1 / 100)));
          row = \<lparr>band = bandName b, ratePercent = bandRate b,
                 rowFrom = Bound (Num (bandFrom b)), rowTo = Bound (bandTo b),
                 amount = amountInBand, tax = taxInBand\<rparr>;
          remainingAmount' = preciseSubtract remainingAmount amountInBand
      in row # (if jle remainingAmount' (Fin 0) then [] else taxBandsLoop bs remainingAmount'))"

definition calculateTaxBands :: "number \<Rightarrow> number \<Rightarrow> TaxRegion \<Rightarrow> TaxBand list" where
  "calculateTaxBands salary personalAllowance taxRegion = taxBandsLoop (bands taxRegion) salary"

text \<open>\<^verbatim>\<open>calculateNIBands\<close> reads \<^verbatim>\<open>NI_THRESHOLDS.PRIMARY_THRESHOLD\<close> and
  \<^verbatim>\<open>NI_THRESHOLDS.UPPER_EARNINGS_LIMIT\<close>, which are objects, where it needs numbers; an
  object operand of an arithmetic operator, a comparison or \<^verbatim>\<open>Math.min\<close> converts to
  \<^verbatim>\<open>NaN\<close>.\<close>

definition groupToNumber :: "ThresholdGroup \<Rightarrow> number" where
  "groupToNumber g = NaN"

definition calculateNIBands :: "number \<Rightarrow> TaxBand list" where
  "calculateNIBands salary =
     (let monthlyAmount = preciseDivide salary (Fin 12);
          pt = PRIMARY_THRESHOLD NI_THRESHOLDS;
          uel = UPPER_EARNINGS_LIMIT NI_THRESHOLDS
      in [\<lparr>band = ''Below Primary Threshold'', ratePercent = Fin 0, rowFrom = Bound (Num (Fin 0)),
           rowTo = Group pt, amount = Math_min salary (groupToNumber pt), tax = Fin 0\<rparr>,
          \<lparr>band = ''Main Rate'', ratePercent = jmul MAIN_RATE (Fin 100), rowFrom = Group pt,
           rowTo = Group uel,
           amount = Math_max (Fin 0)
                      (Math_min (jsub salary (groupToNumber pt))
                                (jsub (groupToNumber uel) (groupToNumber pt))),
           tax = jmul (calculateNI monthlyAmount) (Fin 12)\<rparr>,
          \<lparr>band = ''Higher Rate'', ratePercent = jmul HIGHER_RATE (Fin 100), rowFrom = Group uel,
           rowTo = Bound (Str ''unlimited''),
           amount = Math_max (Fin 0) (jsub salary (groupToNumber uel)),
           tax = (if jless (groupToNumber uel) salary
                  then preciseMultiply (jsub salary (groupToNumber uel)) HIGHER_RATE
                  else Fin 0)\<rparr>])"

section \<open>The orchestrator \<^verbatim>\<open>calculateTaxDetails\<close> (\<^verbatim>\<open>src/utils/taxCodeValidator.ts\<close>,
  lines 432 to 562)\<close>

record MonthlyDetail =
  month :: nat
  monthNumber :: nat
  gross :: number
  taxFree :: number
  taxable :: number
  incomeTax :: number
  nationalInsurance :: number
  netPay :: number

text \<open>The \<^verbatim>\<open>gross\<close> of the annual summary is called \<open>annualGross\<close> here.\<close>

record AnnualSummary =
  annualGross :: number
  totalIncomeTax :: number
  totalNI :: number
  netAnnual :: number

record TaxCalculationResult =
  annualSummary :: AnnualSummary
  monthlyBreakdown :: "MonthlyDetail list"
  incomeTaxBands :: "TaxBand list"
  niBands :: "TaxBand list"

datatype PeriodType = PMonth | PWeek

record CurrentPeriod =
  periodType :: PeriodType
  periodNumber :: int

text \<open>The K-code block of the orchestrator: the allowance is replaced by minus half the
  salary when its magnitude is above half the salary.\<close>

definition capKCode :: "number \<Rightarrow> TaxCodeInfo \<Rightarrow> number \<Rightarrow> number" where
  "capKCode salary taxCodeInfo personalAllowance =
     (if isNegativeAllowance taxCodeInfo then
        let kCodeAdjustment = Math_abs personalAllowance;
            maxTaxableAddition = jmul salary (Fin (1 / 2))
        in if jless maxTaxableAddition kCodeAdjustment then jneg maxTaxableAddition
           else personalAllowance
      else personalAllowance)"

text \<open>One element of the \<^verbatim>\<open>Array.from({ length: 12 }, ...)\<close> breakdown.\<close>

definition monthDetail ::
  "bool \<Rightarrow> TaxRegion \<Rightarrow> number \<Rightarrow> number \<Rightarrow> nat \<Rightarrow> MonthlyDetail" where
  "monthDetail isCumulative taxRegion monthlyGross monthlyAllowance index =
     (let monthNo = index + 1;
          ytdGross = (if isCumulative then preciseMultiply monthlyGross (Fin (of_nat monthNo))
                      else monthlyGross);
          ytdAllowance = (if isCumulative then preciseMultiply monthlyAllowance (Fin (of_nat monthNo))
                          else monthlyAllowance);
          taxableAmount = Math_max (Fin 0) (preciseSubtract ytdGross ytdAllowance);
          tax = calculateIncomeTax taxableAmount taxRegion;
          ni = calculateNI monthlyGross;
          currentMonthTax = (if isCumulative then preciseDivide tax (Fin (of_nat monthNo)) else tax)
      in \<lparr>month = monthNo, monthNumber = monthNo, gross = monthlyGross,
          taxFree = Math_max (Fin 0) monthlyAllowance,
          taxable = preciseDivide taxableAmount (Fin (if isCumulative then of_nat monthNo else 1)),
          incomeTax = currentMonthTax, nationalInsurance = ni,
          netPay = preciseSubtract monthlyGross (preciseAdd currentMonthTax ni)\<rparr>)"

text \<open>The current-period block. \<^verbatim>\<open>slice\<close> copies references, so the assignments of the
  \<^verbatim>\<open>forEach\<close> change the elements of \<^verbatim>\<open>monthlyBreakdown\<close> after \<^verbatim>\<open>periodIndex\<close>; the
  element at \<^verbatim>\<open>periodIndex\<close> is read and not written. The period number is an integer.\<close>

definition periodIndexOf :: "CurrentPeriod \<Rightarrow> int" where
  "periodIndexOf currentPeriod =
     (if periodType currentPeriod = PMonth then periodNumber currentPeriod - 1
      else \<lfloor>(of_int (periodNumber currentPeriod) :: rat) / (52 / 12)\<rfloor> - 1)"

definition applyCurrentPeriod :: "CurrentPeriod option \<Rightarrow> MonthlyDetail list \<Rightarrow> MonthlyDetail list" where
  "applyCurrentPeriod currentPeriod breakdown =
     (case currentPeriod of
        None \<Rightarrow> breakdown
      | Some cp \<Rightarrow>
          let periodIndex = periodIndexOf cp
          in if 0 \<le> periodIndex \<and> periodIndex < int (length breakdown) then
               let current = breakdown ! nat periodIndex
               in take (nat periodIndex + 1) breakdown @
                  map (\<lambda>m. m\<lparr>incomeTax := incomeTax current,
                               nationalInsurance := nationalInsurance current,
                               netPay := netPay current\<rparr>)
                      (drop (nat periodIndex + 1) breakdown)
             else breakdown)"

text \<open>\<^verbatim>\<open>calculateTaxDetails(annualSalary, taxCode, isCumulative, taxYear, currentPeriod)\<close>.
  The first argument here is the tax-year data that \<^verbatim>\<open>getTaxYearData(taxYear)\<close> resolves
  to (\<^verbatim>\<open>supabaseClient\<close> is not part of the sources). The result of \<^verbatim>\<open>validateInput\<close> is
  only traced. The memoisation returns the result of the first call with the same key,
  which this function determines.\<close>

definition calculateTaxDetails ::
  "TaxYearData \<Rightarrow> number \<Rightarrow> string \<Rightarrow> bool \<Rightarrow> CurrentPeriod option \<Rightarrow> TaxCalculationResult" where
  "calculateTaxDetails taxYearData annualSalary taxCode isCumulative currentPeriod =
     (let salary = (if isNaN annualSalary \<or> jless annualSalary (Fin 0) then Fin 0 else annualSalary);
          tCode = (if taxCode = [] then ''1257L'' else taxCode);
          taxCodeInfo = parseTaxCode tCode;
          regionCode = (if isScottish taxCodeInfo then Scotland
                        else if isWelsh taxCodeInfo then Wales else UK);
          taxRegion = regions taxYearData regionCode;
          personalAllowance =
            capKCode salary taxCodeInfo (calculatePersonalAllowance salary taxCodeInfo taxYearData);
          monthlyGross = preciseDivide salary (Fin 12);
          monthlyAllowance = preciseDivide personalAllowance (Fin 12);
          breakdown = map (monthDetail isCumulative taxRegion monthlyGross monthlyAllowance) [0..<12];
          annualTax = foldl (\<lambda>sum m. preciseAdd sum (incomeTax m)) (Fin 0) breakdown;
          annualNI = foldl (\<lambda>sum m. preciseAdd sum (nationalInsurance m)) (Fin 0) breakdown
      in \<lparr>annualSummary =
            \<lparr>annualGross = salary, totalIncomeTax = annualTax, totalNI = annualNI,
             netAnnual = preciseSubtract salary (preciseAdd annualTax annualNI)\<rparr>,
          monthlyBreakdown = applyCurrentPeriod currentPeriod breakdown,
          incomeTaxBands = calculateTaxBands salary personalAllowance taxRegion,
          niBands = calculateNIBands salary\<rparr>)"

text \<open>Modelled from the spec: the tax-year data of \<^verbatim>\<open>getTaxYearData\<close>, whose module is not
  among the sources. Every region is given the repository's static 2023/24 table
  \<open>UK_TAX_BANDS\<close>, with the taper defaults of the spec (threshold 100000, rate 0.5).\<close>

definition taxYearData_2023_24 :: TaxYearData where
  "taxYearData_2023_24 =
     \<lparr>regions = (\<lambda>r. \<lparr>regionName = ''UK'', bands = UK_TAX_BANDS\<rparr>),
      config = \<lparr>paTaperThreshold = Fin 100000, paTaperRate = Fin (1 / 2)\<rparr>\<rparr>"

section \<open>The verification calculator (\<^verbatim>\<open>src/components/TaxVerificationCalculator.tsx\<close>,
  lines 19 to 85)\<close>

text \<open>The callback of \<^verbatim>\<open>useMemo\<close> calls \<^verbatim>\<open>calculateTaxDetails\<close>, which is
  \<^verbatim>\<open>memoize(async ...)\<close>, without \<^verbatim>\<open>await\<close> and with the period object where the tax year
  belongs. Such a call returns a promise at once, for every argument list; the promise is
  kept here with the arguments of the call.\<close>

datatype promise = Promise number string bool PeriodType number

text \<open>A promise has no property \<^verbatim>\<open>incomeTaxBands\<close> or \<^verbatim>\<open>annualSummary\<close>: reading one gives
  \<^verbatim>\<open>undefined\<close>, and a property read or method call on \<^verbatim>\<open>undefined\<close> throws a
  \<^verbatim>\<open>TypeError\<close>.\<close>

datatype jsError = TypeError

definition promiseProperty :: "promise \<Rightarrow> 'a option" where
  "promiseProperty p = None"

text \<open>Lines 67 to 72, the 50 percent overriding limit: \<^verbatim>\<open>finalTax\<close> from \<^verbatim>\<open>isKCode\<close>, the
  amount earned in the period and \<^verbatim>\<open>periodTax\<close>.\<close>

definition finalTax :: "bool \<Rightarrow> number \<Rightarrow> number \<Rightarrow> number" where
  "finalTax isKCode totalAmount periodTax =
     (if isKCode \<and> jless (jmul totalAmount (Fin (1 / 2))) periodTax
      then jmul totalAmount (Fin (1 / 2))
      else periodTax)"

record PeriodBand = TaxBand +
  periodAmount :: number
  periodTax :: number

record Verification =
  taxFreeAmount :: number
  taxableAmount :: number
  expectedTax :: number
  isKCode :: bool
  taxBands :: "PeriodBand list"

text \<open>The callback, from the state of the component: the amount earned, the period type
  and number (\<open>pType\<close>, \<open>pNumber\<close>), the cumulative flag and the tax code. The two reads
  of \<^verbatim>\<open>taxDetails\<close> are \<^verbatim>\<open>taxDetails.incomeTaxBands\<close> (line 42) and
  \<^verbatim>\<open>taxDetails.annualSummary\<close> (line 50). \<^verbatim>\<open>band.rate === '0%'\<close> is the test that the number
  before the percent sign is 0.\<close>

definition calculation ::
  "number \<Rightarrow> PeriodType \<Rightarrow> number \<Rightarrow> bool \<Rightarrow> string \<Rightarrow> jsError + Verification" where
  "calculation earnedAmount pType pNumber isCumulative taxCode =
     (let totalPeriods = (if pType = PMonth then Fin 12 else Fin 52);
          annualizedAmount =
            (if isCumulative then jmul (jdiv earnedAmount pNumber) totalPeriods
             else jmul earnedAmount totalPeriods);
          taxDetails = Promise annualizedAmount taxCode isCumulative pType pNumber
      in case (promiseProperty taxDetails :: TaxBand list option) of
           None \<Rightarrow> Inl TypeError
         | Some bandRows \<Rightarrow>
             let activeTaxBands = filter (\<lambda>b. jless (Fin 0) (amount b)) bandRows;
                 periodFactor = (if isCumulative then jdiv pNumber totalPeriods
                                 else jdiv (Fin 1) totalPeriods)
             in case (promiseProperty taxDetails :: AnnualSummary option) of
                  None \<Rightarrow> Inl TypeError
                | Some summary \<Rightarrow>
                    let periodTax = jmul (totalIncomeTax summary) periodFactor;
                        taxFreeAmount =
                          (case find (\<lambda>b. ratePercent b = Fin 0) bandRows of
                             Some personalAllowanceBand \<Rightarrow>
                               jmul (amount personalAllowanceBand) periodFactor
                           | None \<Rightarrow> Fin 0);
                        isKCode = includes_str (toUpperCase taxCode) ''K'';
                        totalAmount = earnedAmount;
                        taxableAmount =
                          (if isKCode then totalAmount
                           else Math_max (Fin 0) (jsub totalAmount taxFreeAmount))
                    in Inr \<lparr>taxFreeAmount = taxFreeAmount, taxableAmount = taxableAmount,
                            expectedTax = finalTax isKCode totalAmount periodTax,
                            isKCode = isKCode,
                            taxBands =
                              map (\<lambda>b. TaxBand.extend b
                                         \<lparr>periodAmount = jmul (amount b) periodFactor,
                                          periodTax = jmul (tax b) periodFactor\<rparr>)
                                  activeTaxBands\<rparr>)"

section \<open>The band-table invariant of the specification\<close>

text \<open>The invariant of the data model, in the specification's words: the \<^verbatim>\<open>from\<close> of band
  \<open>n + 1\<close> equals the \<^verbatim>\<open>to\<close> of band \<open>n\<close>; the table starts at 0 and only its last band
  is unbounded.\<close>

fun contiguousBands :: "BandDef list \<Rightarrow> bool" where
  "contiguousBands (b1 # b2 # bs) = (bandTo b1 = Num (bandFrom b2) \<and> contiguousBands (b2 # bs))"
| "contiguousBands _ = True"

fun coversFromZero :: "BandDef list \<Rightarrow> bool" where
  "coversFromZero [] = False"
| "coversFromZero (b # bs) = (bandFrom b = Fin 0 \<and> bandTo (last (b # bs)) = Str ''unlimited'')"

section \<open>Auxiliary definitions\<close>

text \<open>The two steps of \<^verbatim>\<open>calculateNI\<close> on a finite, positive monthly salary, with the
  thresholds \<open>12570 / 12\<close> and \<open>50270 / 12\<close> of \<open>NI_THRESHOLDS\<close> written out; lemma
  \<open>calculateNI_Fin\<close> relates them to \<open>calculateNI\<close>.\<close>

definition niMain :: "rat \<Rightarrow> rat" where
  "niMain a =
     (if 2095 / 2 < a
      then round2 (round2 (min (round2 (a - 2095 / 2)) (round2 (25135 / 6 - 2095 / 2))
                           * (12 / 100)))
      else 0)"

definition niAll :: "rat \<Rightarrow> rat" where
  "niAll a =
     (if 25135 / 6 < a
      then round2 (niMain a + round2 (round2 (a - 25135 / 6) * (2 / 100)))
      else niMain a)"

section \<open>Rounding to two places\<close>

lemma round2_nonneg: "0 \<le> a \<Longrightarrow> 0 \<le> round2 a"
proof -
  assume a: "0 \<le> a"
  then have "0 \<le> a * 100 + 1 / 2" by simp
  then have "0 \<le> \<lfloor>a * 100 + 1 / 2\<rfloor>" by (simp only: zero_le_floor)
  then have "(0::rat) \<le> of_int \<lfloor>a * 100 + 1 / 2\<rfloor> / 100" by simp
  with a show ?thesis by (simp only: round2_def if_True)
qed

lemma round2_nonpos: "a \<le> 0 \<Longrightarrow> round2 a \<le> 0"
proof (cases "0 \<le> a")
  case True
  assume "a \<le> 0"
  with True have "a = 0" by simp
  moreover have "\<lfloor>(1::rat) / 2\<rfloor> = 0" by linarith
  ultimately show ?thesis by (simp add: round2_def)
next
  case False
  then have "0 \<le> - a * 100 + 1 / 2" by simp
  then have "0 \<le> \<lfloor>- a * 100 + 1 / 2\<rfloor>" by (simp only: zero_le_floor)
  then have "- ((of_int \<lfloor>- a * 100 + 1 / 2\<rfloor> :: rat) / 100) \<le> 0" by simp
  with False show ?thesis by (simp only: round2_def if_False)
qed

lemma round2_mono: "a \<le> b \<Longrightarrow> round2 a \<le> round2 b"
proof -
  assume ab: "a \<le> b"
  have f1: "(of_int \<lfloor>x * 100 + 1 / 2\<rfloor> :: rat) / 100 \<le> of_int \<lfloor>y * 100 + 1 / 2\<rfloor> / 100"
    if "x \<le> y" for x y :: rat
  proof -
    from that have "x * 100 + 1 / 2 \<le> y * 100 + 1 / 2" by simp
    then have "\<lfloor>x * 100 + 1 / 2\<rfloor> \<le> \<lfloor>y * 100 + 1 / 2\<rfloor>" by (rule floor_mono)
    then show ?thesis by (simp add: divide_right_mono)
  qed
  show ?thesis
  proof (cases "0 \<le> a")
    case True
    with ab have "0 \<le> b" by simp
    with True ab show ?thesis using f1[of a b] by (simp only: round2_def if_True)
  next
    case False
    show ?thesis
    proof (cases "0 \<le> b")
      case True
      have "round2 a \<le> 0" using False by (simp add: round2_nonpos)
      also have "0 \<le> round2 b" using True by (rule round2_nonneg)
      finally show ?thesis .
    next
      case bneg: False
      have "- b \<le> - a" using ab by simp
      from f1[OF this] have "- ((of_int \<lfloor>- a * 100 + 1 / 2\<rfloor> :: rat) / 100)
           \<le> - (of_int \<lfloor>- b * 100 + 1 / 2\<rfloor> / 100)" by simp
      then show ?thesis using False bneg by (simp only: round2_def if_False)
    qed
  qed
qed

lemma round2_zero: "round2 0 = 0"
  by code_simp

lemma round2_of_int: "round2 (of_int k / 100) = of_int k / 100"
proof (cases "0 \<le> k")
  case True
  have "\<lfloor>(of_int k :: rat) + 1 / 2\<rfloor> = k" by linarith
  with True show ?thesis by (simp add: round2_def)
next
  case False
  have "\<lfloor>- (of_int k :: rat) + 1 / 2\<rfloor> = - k" by linarith
  with False show ?thesis by (simp add: round2_def)
qed

lemma round2_idem: "round2 (round2 q) = round2 q"
proof (cases "0 \<le> q")
  case True
  then have "round2 q = of_int \<lfloor>q * 100 + 1 / 2\<rfloor> / 100" by (simp only: round2_def if_True)
  then show ?thesis by (simp only: round2_of_int)
next
  case False
  then have "round2 q = - (of_int \<lfloor>- q * 100 + 1 / 2\<rfloor> / 100)" by (simp only: round2_def if_False)
  also have "\<dots> = of_int (- \<lfloor>- q * 100 + 1 / 2\<rfloor>) / 100" by simp
  finally show ?thesis by (simp only: round2_of_int)
qed

lemma NI_THRESHOLDS_monthly:
  "MONTHLY (PRIMARY_THRESHOLD NI_THRESHOLDS) = Fin (2095 / 2)"
  "MONTHLY (UPPER_EARNINGS_LIMIT NI_THRESHOLDS) = Fin (25135 / 6)"
  by (simp_all add: NI_THRESHOLDS_def validateNIThresholds_def validThresholdGroup_def
      validThresholdValue_def RAW_PRIMARY_THRESHOLD_def RAW_UPPER_EARNINGS_LIMIT_def)

section \<open>National Insurance on finite and infinite pay\<close>

lemma calculateNI_Fin:
  "calculateNI (Fin a) = Fin (if a \<le> 0 then 0 else round2 (niAll a))"
  by (auto simp add: calculateNI_def NI_THRESHOLDS_monthly Let_def preciseAdd_def preciseMultiply_def
      preciseSubtract_def preciseRound_def Math_min_def jsub_def MAIN_RATE_def HIGHER_RATE_def
      niMain_def niAll_def min_def round2_zero)

lemma niMain_nonneg: "0 \<le> niMain a"
proof (cases "2095 / 2 < a")
  case True
  then have "0 \<le> round2 (a - 2095 / 2)" by (intro round2_nonneg) simp
  moreover have "0 \<le> round2 (25135 / 6 - 2095 / 2)" by (intro round2_nonneg) simp
  ultimately have "0 \<le> min (round2 (a - 2095 / 2)) (round2 (25135 / 6 - 2095 / 2)) * (12 / 100)"
    by simp
  then show ?thesis using True by (simp add: niMain_def round2_nonneg)
next
  case False
  then show ?thesis by (simp add: niMain_def)
qed

lemma niMain_mono: "a \<le> b \<Longrightarrow> niMain a \<le> niMain b"
proof (cases "2095 / 2 < a")
  case True
  assume ab: "a \<le> b"
  with True have b: "2095 / 2 < b" by simp
  from ab have "round2 (a - 2095 / 2) \<le> round2 (b - 2095 / 2)" by (intro round2_mono) simp
  then have "min (round2 (a - 2095 / 2)) (round2 (25135 / 6 - 2095 / 2)) * (12 / 100)
      \<le> min (round2 (b - 2095 / 2)) (round2 (25135 / 6 - 2095 / 2)) * (12 / 100)"
    by (simp add: min_le_iff_disj)
  then show ?thesis using True b by (simp only: niMain_def if_True round2_mono)
next
  case False
  then have "niMain a = 0" by (simp add: niMain_def)
  then show ?thesis by (simp add: niMain_nonneg)
qed

lemma niMain_round: "round2 (niMain a) = niMain a"
  by (simp add: niMain_def round2_idem round2_zero)

lemma niAll_mono: "a \<le> b \<Longrightarrow> niAll a \<le> niAll b"
proof -
  assume ab: "a \<le> b"
  have up: "niMain x \<le> round2 (niMain x + round2 (round2 (x - 25135 / 6) * (2 / 100)))"
    if "25135 / 6 < x" for x
  proof -
    from that have "0 \<le> round2 (x - 25135 / 6)" by (intro round2_nonneg) simp
    then have "0 \<le> round2 (round2 (x - 25135 / 6) * (2 / 100))" by (intro round2_nonneg) simp
    then have "round2 (niMain x) \<le> round2 (niMain x + round2 (round2 (x - 25135 / 6) * (2 / 100)))"
      by (intro round2_mono) simp
    then show ?thesis by (simp only: niMain_round)
  qed
  show ?thesis
  proof (cases "25135 / 6 < a")
    case True
    with ab have b: "25135 / 6 < b" by simp
    from ab have "round2 (a - 25135 / 6) \<le> round2 (b - 25135 / 6)" by (intro round2_mono) simp
    then have "round2 (round2 (a - 25135 / 6) * (2 / 100)) \<le> round2 (round2 (b - 25135 / 6) * (2 / 100))"
      by (intro round2_mono) simp
    with niMain_mono[OF ab]
    have "niMain a + round2 (round2 (a - 25135 / 6) * (2 / 100))
        \<le> niMain b + round2 (round2 (b - 25135 / 6) * (2 / 100))" by simp
    then show ?thesis using True b by (simp only: niAll_def if_True round2_mono)
  next
    case False
    then have a: "niAll a = niMain a" by (simp add: niAll_def)
    show ?thesis
    proof (cases "25135 / 6 < b")
      case True
      have "niMain a \<le> niMain b" using ab by (rule niMain_mono)
      also have "\<dots> \<le> niAll b" using up[OF True] True by (simp only: niAll_def if_True)
      finally show ?thesis using a by simp
    next
      case False
      then show ?thesis using a niMain_mono[OF ab] by (simp add: niAll_def)
    qed
  qed
qed

lemma niAll_nonneg: "0 \<le> niAll a"
proof -
  have "niAll a = niMain a \<or> niAll a = round2 (niMain a + round2 (round2 (a - 25135 / 6) * (2 / 100))) \<and> 25135 / 6 < a"
    by (simp add: niAll_def)
  then show ?thesis
  proof
    assume "niAll a = niMain a" then show ?thesis by (simp add: niMain_nonneg)
  next
    assume h: "niAll a = round2 (niMain a + round2 (round2 (a - 25135 / 6) * (2 / 100))) \<and> 25135 / 6 < a"
    then have "0 \<le> round2 (a - 25135 / 6)" by (intro round2_nonneg) simp
    then have "0 \<le> round2 (round2 (a - 25135 / 6) * (2 / 100))" by (intro round2_nonneg) simp
    then have "0 \<le> niMain a + round2 (round2 (a - 25135 / 6) * (2 / 100))"
      using niMain_nonneg[of a] by simp
    then show ?thesis using h by (simp add: round2_nonneg)
  qed
qed

lemma calculateNI_PosInf: "calculateNI PosInf = PosInf"
  by (simp add: calculateNI_def NI_THRESHOLDS_monthly Let_def preciseAdd_def preciseMultiply_def
      preciseSubtract_def preciseRound_def Math_min_def jsub_def MAIN_RATE_def HIGHER_RATE_def)

lemma calculateNI_mono:
  assumes "jle (Fin 0) x" and "jle x y"
  shows "jle (calculateNI x) (calculateNI y)"
proof (cases x)
  case (Fin a)
  show ?thesis
  proof (cases y)
    case (Fin b)
    with assms \<open>x = Fin a\<close> have ab: "a \<le> b" and a0: "0 \<le> a" by simp_all
    have "round2 (niAll a) \<le> round2 (niAll b)" using ab by (intro round2_mono niAll_mono)
    moreover have "0 \<le> round2 (niAll b)" by (intro round2_nonneg niAll_nonneg)
    ultimately show ?thesis using \<open>x = Fin a\<close> Fin ab a0 by (simp add: calculateNI_Fin)
  next
    case PosInf
    then show ?thesis using \<open>x = Fin a\<close> by (simp add: calculateNI_Fin calculateNI_PosInf)
  qed (use assms \<open>x = Fin a\<close> in simp_all)
next
  case PosInf
  with assms have "y = PosInf" by (cases y) simp_all
  with PosInf show ?thesis by (simp add: calculateNI_PosInf)
qed (use assms in simp_all)

lemma calculateNI_below_threshold:
  assumes "jle x (MONTHLY (PRIMARY_THRESHOLD NI_THRESHOLDS))"
  shows "calculateNI x = Fin 0"
proof (cases x)
  case (Fin a)
  with assms have "a \<le> 2095 / 2" by (simp add: NI_THRESHOLDS_monthly)
  then show ?thesis using Fin by (simp add: calculateNI_Fin niAll_def niMain_def round2_zero)
next
  case NegInf
  then show ?thesis by (simp add: calculateNI_def)
qed (use assms in \<open>simp_all add: NI_THRESHOLDS_monthly\<close>)

lemma calculateNI_nonpositive:
  assumes "jle x (Fin 0) \<or> isNaN x"
  shows "calculateNI x = Fin 0"
  using assms by (auto simp add: calculateNI_def)

section \<open>The monthly breakdown and the current-period block\<close>

lemma monthDetail_fields:
  "nationalInsurance (monthDetail c r g a i) = calculateNI g"
  "gross (monthDetail c r g a i) = g"
  "monthNumber (monthDetail c r g a i) = i + 1"
  "month (monthDetail c r g a i) = i + 1"
  by (simp_all add: monthDetail_def Let_def)

lemma applyCurrentPeriod_length: "length (applyCurrentPeriod cp xs) = length xs"
  by (cases cp) (auto simp add: applyCurrentPeriod_def Let_def)

lemma applyCurrentPeriod_nth:
  assumes "i < length xs"
  shows "applyCurrentPeriod (Some cp) xs ! i =
     (if 0 \<le> periodIndexOf cp \<and> periodIndexOf cp < int (length xs) \<and> periodIndexOf cp < int i
      then (xs ! i)\<lparr>incomeTax := incomeTax (xs ! nat (periodIndexOf cp)),
                     nationalInsurance := nationalInsurance (xs ! nat (periodIndexOf cp)),
                     netPay := netPay (xs ! nat (periodIndexOf cp))\<rparr>
      else xs ! i)"
proof (cases "0 \<le> periodIndexOf cp \<and> periodIndexOf cp < int (length xs)")
  case False
  then show ?thesis by (auto simp add: applyCurrentPeriod_def Let_def)
next
  case True
  define p where "p = nat (periodIndexOf cp)"
  with True have p: "periodIndexOf cp = int p" "p < length xs" by (simp, linarith)
  show ?thesis
  proof (cases "p < i")
    case True
    then have "\<not> i < Suc p" by simp
    moreover from True assms have "Suc p + (i - Suc p) = i" by simp
    ultimately show ?thesis using True assms p
      by (simp add: applyCurrentPeriod_def Let_def nth_append min_def)
  next
    case False
    then have "i < Suc p" by simp
    then show ?thesis using assms p False
      by (simp add: applyCurrentPeriod_def Let_def nth_append)
  qed
qed

lemma applyCurrentPeriod_None: "applyCurrentPeriod None xs = xs"
  by (simp add: applyCurrentPeriod_def)

lemma applyCurrentPeriod_ni:
  assumes "\<forall>j < length xs. nationalInsurance (xs ! j) = v" and "i < length xs"
  shows "nationalInsurance (applyCurrentPeriod cp xs ! i) = v"
proof (cases cp)
  case None
  with assms show ?thesis by (simp add: applyCurrentPeriod_None)
next
  case (Some c)
  have "nat (periodIndexOf c) < length xs" if "0 \<le> periodIndexOf c" "periodIndexOf c < int (length xs)"
    using that by linarith
  with assms Some show ?thesis by (simp add: applyCurrentPeriod_nth)
qed

lemma clamped_salary_ni:
  "calculateNI (preciseDivide (if isNaN s \<or> jless s (Fin 0) then Fin 0 else s) (Fin 12))
     = calculateNI (preciseDivide s (Fin 12))"
proof (cases s)
  case (Fin a)
  show ?thesis
  proof (cases "a < 0")
    case True
    then have "round2 (a / 12) \<le> 0" by (intro round2_nonpos) simp
    then show ?thesis using True Fin
      by (simp add: preciseDivide_def calculateNI_nonpositive round2_zero)
  next
    case False
    then show ?thesis using Fin by simp
  qed
qed (simp_all add: preciseDivide_def calculateNI_nonpositive round2_zero)

lemma monthly_national_insurance:
  assumes "i < 12"
  shows "nationalInsurance (monthlyBreakdown (calculateTaxDetails td s code cum cp) ! i)
           = calculateNI (preciseDivide s (Fin 12))"
proof -
  have "nationalInsurance (applyCurrentPeriod cp (map (monthDetail cum r g a) [0..<12]) ! i) = calculateNI g"
    for r g a
    by (rule applyCurrentPeriod_ni) (use assms in \<open>simp_all add: monthDetail_fields\<close>)
  then show ?thesis
    by (simp add: calculateTaxDetails_def Let_def clamped_salary_ni del: upt.simps)
qed

section \<open>The allowance under the taper and the K-code cap\<close>

lemma taper_reduction_cases:
  assumes "jless thr salary" and "\<not> jless rate (Fin 0)"
  shows "Math_floor (jmul (jsub salary thr) rate) = NaN
         \<or> Math_floor (jmul (jsub salary thr) rate) = PosInf
         \<or> (\<exists>f. Math_floor (jmul (jsub salary thr) rate) = Fin f \<and> 0 \<le> f)"
  using assms by (cases salary; cases thr; cases rate) (auto simp add: jsub_def)

lemma calculatePersonalAllowance_negative:
  assumes "baseAllowance info = Fin b" and "b < 0"
    and "jless (paTaperThreshold (config td)) salary"
    and "\<not> jless (paTaperRate (config td)) (Fin 0)"
  shows "calculatePersonalAllowance salary info td = Fin 0"
  using taper_reduction_cases [OF assms(3,4)] assms(1,2,3)
  by (auto simp add: calculatePersonalAllowance_def Let_def Math_min_def preciseSubtract_def
      jsub_def round2_zero)

lemma capKCode_zero:
  assumes "jle (Fin 0) salary"
  shows "capKCode salary info (Fin 0) = Fin 0"
  using assms by (cases salary) (auto simp add: capKCode_def Let_def)

lemma capKCode_bound:
  assumes "isNegativeAllowance info" and "\<not> isNaN pa" and "jle (Fin 0) salary"
  shows "jle (Math_abs (capKCode salary info pa)) (jmul salary (Fin (1 / 2)))"
  using assms by (cases salary; cases pa) (auto simp add: capKCode_def Let_def)

lemma calculatePersonalAllowance_not_NaN:
  assumes "baseAllowance info = Fin b"
  shows "\<not> isNaN (calculatePersonalAllowance salary info td)"
proof -
  obtain r where r: "Math_floor (jmul (jsub salary (paTaperThreshold (config td))) (paTaperRate (config td))) = r"
    by simp
  show ?thesis using assms r
    by (cases r) (auto simp add: calculatePersonalAllowance_def Let_def Math_min_def
        preciseSubtract_def jsub_def)
qed

lemma parseBaseAllowance_Fin: "\<exists>b. parseBaseAllowance code = Fin b"
  by (auto simp add: parseBaseAllowance_def Let_def split: option.splits prod.splits)

lemma parseTaxCode_Fin:
  assumes "specialCodeType (parseTaxCode code) = None"
  shows "\<exists>b. baseAllowance (parseTaxCode code) = Fin b"
  using assms parseBaseAllowance_Fin [of "trim (toUpperCase code)"]
  by (auto simp add: parseTaxCode_def Let_def split: if_splits)

lemma finalTax_min:
  assumes "\<not> isNaN totalAmount"
  shows "finalTax True totalAmount computedTax = Math_min computedTax (jmul totalAmount (Fin (1 / 2)))"
  using assms by (cases totalAmount; cases computedTax) (auto simp add: finalTax_def Math_min_def)

lemma finalTax_not_k_code: "finalTax False totalAmount computedTax = computedTax"
  by (simp add: finalTax_def)

text \<open>The personal allowance of the orchestrator, after the taper and the K-code block,
  has a magnitude of at most half the salary for every K-code descriptor.\<close>

lemma orchestrator_allowance_cap:
  assumes "isNegativeAllowance (parseTaxCode taxCode)"
    and "specialCodeType (parseTaxCode taxCode) = None" and "jle (Fin 0) salary"
  shows "jle (Math_abs (capKCode salary (parseTaxCode taxCode)
                          (calculatePersonalAllowance salary (parseTaxCode taxCode) taxYearData)))
             (jmul salary (Fin (1 / 2)))"
proof -
  from assms(2) obtain b where "baseAllowance (parseTaxCode taxCode) = Fin b"
    using parseTaxCode_Fin by blast
  then have "\<not> isNaN (calculatePersonalAllowance salary (parseTaxCode taxCode) taxYearData)"
    by (rule calculatePersonalAllowance_not_NaN)
  with assms show ?thesis by (simp add: capKCode_bound)
qed

section \<open>The characters of a valid tax code\<close>

lemma startsWith_append: "startsWith s p \<Longrightarrow> s = p @ drop (length p) s"
  by (metis append_take_drop_id startsWith_def)

lemma startsWith_Cons: "startsWith s (c # p) \<Longrightarrow> \<exists>t. s = c # t"
  by (cases s) (simp_all add: startsWith_def)

lemma includes_str_mem: "includes_str s (c # p) \<Longrightarrow> c \<in> set s"
  by (induction s) (auto simp add: startsWith_def)

lemma trim_no_space:
  assumes "\<forall>c \<in> set s. \<not> isSpace c"
  shows "trim s = s"
proof -
  have "dropWhile isSpace xs = xs" if "\<forall>c \<in> set xs. \<not> isSpace c" for xs
    using that by (cases xs) simp_all
  from this [of s] this [of "rev s"] assms show ?thesis by (simp add: trim_def)
qed

lemma digits_chars: "list_all isDigit ds \<Longrightarrow> set ds \<subseteq> set ''0123456789''"
  unfolding list_all_iff isDigit_def by blast

lemma matchesKCode_chars:
  assumes "matchesKCode pre u"
  shows "set u \<subseteq> set pre \<union> set ''0123456789''"
proof -
  from assms have u: "u = pre @ drop (length pre) u" and d: "list_all isDigit (drop (length pre) u)"
    by (simp_all add: matchesKCode_def digits_1_4_def startsWith_append)
  from digits_chars [OF d] have "set (pre @ drop (length pre) u) \<subseteq> set pre \<union> set ''0123456789''"
    unfolding set_append by blast
  with u show ?thesis by simp
qed

lemma suffix_chars:
  assumes "l \<in> set ''TLMNWY''" and "suffix \<in> set [[], ''1'', ''W1'', ''M1'']"
  shows "set (l # suffix) \<subseteq> set ''TLMNWY1''"
proof -
  from assms(2) have "set suffix \<subseteq> set ''TLMNWY1''" by auto
  moreover from assms(1) have "l \<in> set ''TLMNWY1''" by auto
  ultimately show ?thesis by simp
qed

lemma matchesStandard_chars:
  assumes "matchesStandard pre u"
  shows "set u \<subseteq> set pre \<union> (set ''0123456789'' \<union> set ''TLMNWY1'')"
proof -
  define body where "body = drop (length pre) u"
  define D where "D = set ''0123456789''"
  define L where "L = set ''TLMNWY1''"
  from assms have u: "u = pre @ body"
    by (simp add: matchesStandard_def body_def startsWith_append)
  from assms obtain l suffix where r: "dropWhile isDigit body = l # suffix"
    "l \<in> set ''TLMNWY''" "suffix \<in> set [[], ''1'', ''W1'', ''M1'']"
    unfolding matchesStandard_def body_def Let_def by (auto split: list.splits)
  have t: "set (takeWhile isDigit body) \<subseteq> D"
    unfolding D_def using set_takeWhileD [of _ isDigit body] unfolding isDigit_def by blast
  from suffix_chars [OF r(2,3)] r(1) have s: "set (dropWhile isDigit body) \<subseteq> L"
    unfolding L_def by simp
  have "body = takeWhile isDigit body @ dropWhile isDigit body" by simp
  then have "set body = set (takeWhile isDigit body) \<union> set (dropWhile isDigit body)"
    by (metis set_append)
  with t s have "set body \<subseteq> D \<union> L" by blast
  with u have "set u \<subseteq> set pre \<union> (D \<union> L)" by auto
  then show ?thesis unfolding D_def L_def .
qed


lemma parseTaxCode_flags:
  assumes "taxCode \<noteq> []" and "trim taxCode \<noteq> []"
  shows "isNegativeAllowance (parseTaxCode taxCode) = includes_str (trim (toUpperCase taxCode)) ''K''"
    and "specialCodeType (parseTaxCode taxCode) \<noteq> None \<longleftrightarrow>
           (trim (toUpperCase taxCode) = ''BR'' \<or> trim (toUpperCase taxCode) = ''D0''
            \<or> trim (toUpperCase taxCode) = ''D1''
            \<or> includes_str (trim (toUpperCase taxCode)) ''NT''
            \<or> startsWith (trim (toUpperCase taxCode)) ''0T'')"
  using assms by (simp_all add: parseTaxCode_def Let_def)

lemma special_not_negative:
  assumes "matchesSpecial u"
  shows "CHR ''K'' \<notin> set u \<and> (\<forall>c \<in> set u. \<not> isSpace c)"
  using assms by (auto simp add: matchesSpecial_def isSpace_def)

lemma standard_not_negative:
  assumes "matchesStandard pre u" and "pre = [] \<or> pre = ''S'' \<or> pre = ''C''"
  shows "CHR ''K'' \<notin> set u \<and> (\<forall>c \<in> set u. \<not> isSpace c)"
proof -
  have a: "CHR ''K'' \<notin> set pre \<union> (set ''0123456789'' \<union> set ''TLMNWY1'')"
    using assms(2) by auto
  have b: "\<forall>c \<in> set pre \<union> (set ''0123456789'' \<union> set ''TLMNWY1''). \<not> isSpace c"
    using assms(2) by (auto simp add: isSpace_def)
  from matchesStandard_chars [OF assms(1)] a b show ?thesis by blast
qed

lemma kcode_not_special:
  assumes "matchesKCode pre u" and "pre = ''K'' \<or> pre = ''SK'' \<or> pre = ''CK''"
  shows "u \<noteq> ''BR'' \<and> u \<noteq> ''D0'' \<and> u \<noteq> ''D1'' \<and> \<not> includes_str u ''NT''
         \<and> \<not> startsWith u ''0T'' \<and> (\<forall>c \<in> set u. \<not> isSpace c)"
proof -
  note sub = matchesKCode_chars [OF assms(1)]
  have n: "CHR ''N'' \<notin> set pre \<union> set ''0123456789''" using assms(2) by auto
  have bd: "CHR ''B'' \<notin> set pre \<union> set ''0123456789''" "CHR ''D'' \<notin> set pre \<union> set ''0123456789''"
    using assms(2) by auto
  have sp: "\<forall>c \<in> set pre \<union> set ''0123456789''. \<not> isSpace c"
    using assms(2) by (auto simp add: isSpace_def)
  from sub n have "CHR ''N'' \<notin> set u" by blast
  then have nt: "\<not> includes_str u ''NT''" using includes_str_mem by blast
  from sub bd have "CHR ''B'' \<notin> set u" "CHR ''D'' \<notin> set u" by blast+
  then have ne: "u \<noteq> ''BR''" "u \<noteq> ''D0''" "u \<noteq> ''D1''" by auto
  from assms have "\<exists>t. u = CHR ''K'' # t \<or> u = CHR ''S'' # t \<or> u = CHR ''C'' # t"
    by (cases u) (auto simp add: matchesKCode_def startsWith_def)
  then have z: "\<not> startsWith u ''0T''" by (auto simp add: startsWith_def)
  from sub sp have "\<forall>c \<in> set u. \<not> isSpace c" by blast
  with nt ne z show ?thesis by simp
qed

lemma valid_code_exclusive:
  assumes "isValid (validateTaxCode taxCode)"
  shows "\<not> (specialCodeType (parseTaxCode taxCode) \<noteq> None \<and> isNegativeAllowance (parseTaxCode taxCode))"
proof (cases "taxCode = [] \<or> trim taxCode = []")
  case True
  then show ?thesis by (auto simp add: parseTaxCode_def)
next
  case False
  define u where "u = toUpperCase taxCode"
  from False have ne: "taxCode \<noteq> []" "trim taxCode \<noteq> []" by simp_all
  note flags = parseTaxCode_flags [OF ne, folded u_def]
  from assms False have "matchesSpecial u \<or> matchesKCode ''K'' u \<or> matchesKCode ''SK'' u
      \<or> matchesKCode ''CK'' u \<or> matchesStandard [] u \<or> matchesStandard ''S'' u
      \<or> matchesStandard ''C'' u"
    unfolding validateTaxCode_def u_def Let_def by (simp split: if_splits)
  then consider (special) "matchesSpecial u"
    | (kcode) pre where "matchesKCode pre u" "pre = ''K'' \<or> pre = ''SK'' \<or> pre = ''CK''"
    | (standard) pre where "matchesStandard pre u" "pre = [] \<or> pre = ''S'' \<or> pre = ''C''"
    by blast
  then show ?thesis
  proof cases
    case special
    from special_not_negative [OF this] have "trim u = u" "CHR ''K'' \<notin> set u"
      by (simp_all add: trim_no_space)
    then have "\<not> includes_str (trim u) ''K''" using includes_str_mem by fastforce
    with flags(1) show ?thesis by simp
  next
    case kcode
    from kcode_not_special [OF this] have "trim u = u" by (simp add: trim_no_space)
    with kcode_not_special [OF kcode] flags(2) show ?thesis by simp
  next
    case standard
    from standard_not_negative [OF this] have "trim u = u" "CHR ''K'' \<notin> set u"
      by (simp_all add: trim_no_space)
    then have "\<not> includes_str (trim u) ''K''" using includes_str_mem by fastforce
    with flags(1) show ?thesis by simp
  qed
qed

section \<open>K-codes with the prefixes K and SK\<close>

lemma toUpperChar_digit: "isDigit c \<Longrightarrow> toUpperChar c = c"
  unfolding isDigit_def by (simp, elim disjE) (simp_all add: toUpperChar_def)

lemma toUpperCase_digits: "list_all isDigit ds \<Longrightarrow> toUpperCase ds = ds"
  by (induction ds) (simp_all add: toUpperCase_def toUpperChar_digit)

lemma matchDigits_digits:
  assumes "list_all isDigit ds" and "ds \<noteq> []"
  shows "matchDigits ds = Some ds"
proof -
  from assms have a: "dropWhile (\<lambda>c. \<not> isDigit c) ds = ds" by (cases ds) simp_all
  from assms(1) have b: "takeWhile isDigit ds = ds" by (simp add: list_all_iff)
  show ?thesis unfolding matchDigits_def Let_def a b using assms(2) by simp
qed

text \<open>The English and Scottish K-codes do parse to minus ten times their number.\<close>

lemma k_code_allowance:
  assumes "digits_1_4 ds" and "pre = ''K'' \<or> pre = ''SK''"
  shows "baseAllowance (parseTaxCode (pre @ ds)) = Fin (- (of_int (parseInt ds) * 10))
         \<and> isNegativeAllowance (parseTaxCode (pre @ ds))"
proof -
  define u where "u = pre @ ds"
  from assms(1) have d: "list_all isDigit ds" "ds \<noteq> []" by (auto simp add: digits_1_4_def)
  then obtain d0 dt where ds: "ds = d0 # dt" "isDigit d0" by (cases ds) simp_all
  have pre_up: "toUpperCase pre = pre"
    using assms(2) by (auto simp add: toUpperCase_def toUpperChar_def)
  have up: "toUpperCase u = u"
    using pre_up toUpperCase_digits [OF d(1)] by (simp add: u_def toUpperCase_def)
  have m: "matchesKCode pre u" "pre = ''K'' \<or> pre = ''SK'' \<or> pre = ''CK''"
    using assms by (auto simp add: u_def matchesKCode_def startsWith_def)
  note ns = kcode_not_special [OF m]
  from ns have tr: "trim u = u" by (simp add: trim_no_space)
  have ne: "u \<noteq> []" using d(2) by (simp add: u_def)
  have k: "includes_str u ''K''" using assms(2) by (auto simp add: u_def startsWith_def)
  have d0: "d0 \<noteq> CHR ''K''" "d0 \<noteq> CHR ''S''" "d0 \<noteq> CHR ''C''"
    using ds(2) by (auto simp add: isDigit_def)
  note md = matchDigits_digits [OF d, unfolded ds(1)]
  have pb: "parseBaseAllowance u = Fin (- (of_int (parseInt ds) * 10))"
  proof (cases "pre = ''K''")
    case True
    then show ?thesis using md d0
      by (simp add: parseBaseAllowance_def u_def ds(1) startsWith_def)
  next
    case False
    with assms(2) have "pre = ''SK''" by simp
    then show ?thesis using md d0
      by (simp add: parseBaseAllowance_def u_def ds(1) startsWith_def)
  qed
  from ns have sp: "u \<noteq> ''BR''" "u \<noteq> ''D0''" "u \<noteq> ''D1''" "\<not> includes_str u ''NT''"
    "\<not> startsWith u ''0T''" by simp_all
  have "parseTaxCode u = \<lparr>baseAllowance = parseBaseAllowance u, isScottish = startsWith u ''S'',
      isWelsh = startsWith u ''C'', isNegativeAllowance = True, hasMarriageAllowance = False,
      marriageAllowanceAmount = Fin 0, specialCodeType = None, taxRate = None,
      isNonCumulative = (endsWith u ''W1'' \<or> endsWith u ''M1'' \<or> includes_str u ''X'')\<rparr>"
    unfolding parseTaxCode_def up tr using ne sp k by (simp add: Let_def)
  with pb show ?thesis by (simp add: u_def)
qed

lemma k_code_allowance_example:
  "baseAllowance (parseTaxCode ''SK475'') = Fin (- 4750)"
  by code_simp

section \<open>The taxable pay of a month under a K-code\<close>

lemma round2_hundredths: "\<exists>k::int. round2 q = of_int k / 100"
proof (cases "0 \<le> q")
  case True
  then have "round2 q = of_int \<lfloor>q * 100 + 1 / 2\<rfloor> / 100" by (simp only: round2_def if_True)
  then show ?thesis by blast
next
  case False
  then have "round2 q = - (of_int \<lfloor>- q * 100 + 1 / 2\<rfloor> / 100)" by (simp only: round2_def if_False)
  also have "\<dots> = of_int (- \<lfloor>- q * 100 + 1 / 2\<rfloor>) / 100" by simp
  finally show ?thesis by blast
qed

lemma round2_neg: "round2 (- q) = - round2 q"
proof -
  consider "q = 0" | "0 < q" | "q < 0" by linarith
  then show ?thesis
  proof cases
    case 1
    then show ?thesis by (simp add: round2_zero)
  next
    case 2
    then have "\<not> 0 \<le> - q" "0 \<le> q" by simp_all
    then show ?thesis by (simp add: round2_def)
  next
    case 3
    then have "0 \<le> - q" "\<not> 0 \<le> q" by simp_all
    then show ?thesis by (simp add: round2_def)
  qed
qed

lemma monthDetail_taxable:
  fixes k j :: int
  assumes g: "g = of_int k / 100" and a: "a = of_int j / 100"
  shows "taxable (monthDetail cum r (Fin g) (Fin a) i) = Fin (max 0 (g - a))"
proof -
  define m :: rat where "m = of_nat (Suc i)"
  have m: "0 < m" by (simp add: m_def)
  have e0: "round2 (g - a) = g - a"
    using round2_of_int [of "k - j"] by (simp add: g a diff_divide_distrib)
  have e1: "round2 (g * m) = g * m"
    using round2_of_int [of "k * int (Suc i)"] by (simp add: g m_def)
  have e2: "round2 (a * m) = a * m"
    using round2_of_int [of "j * int (Suc i)"] by (simp add: a m_def)
  have e3: "round2 (g * m - a * m) = g * m - a * m"
    using round2_of_int [of "(k - j) * int (Suc i)"]
    by (simp add: g a m_def diff_divide_distrib left_diff_distrib)
  have e4: "round2 (max 0 (g * m - a * m) / m) = max 0 (g - a)"
  proof (cases "0 \<le> g - a")
    case True
    with m have "0 \<le> (g - a) * m" by simp
    then have "max 0 (g * m - a * m) = (g - a) * m" by (simp add: left_diff_distrib)
    with m True e0 show ?thesis by simp
  next
    case False
    with m have "(g - a) * m < 0" by (simp add: mult_less_0_iff)
    then have "max 0 (g * m - a * m) = 0" by (simp add: left_diff_distrib)
    with False show ?thesis by (simp add: round2_zero)
  qed
  have e5: "round2 (max 0 (g - a)) = max 0 (g - a)"
    using e0 by (simp add: max_def round2_zero)
  have mx: "Math_max (Fin 0) (Fin x) = Fin (max 0 x)" for x
    by (simp add: Math_max_def max_def)
  show ?thesis
  proof (cases cum)
    case True
    from m have "m \<noteq> 0" by simp
    with True e1 e2 e3 e4 show ?thesis
      by (simp add: monthDetail_def Let_def preciseMultiply_def preciseSubtract_def
          preciseDivide_def jsub_def mx m_def [symmetric] del: of_nat_Suc of_nat_add)
  next
    case False
    with e0 e5 show ?thesis
      by (simp add: monthDetail_def Let_def preciseSubtract_def preciseDivide_def jsub_def mx)
  qed
qed


lemma applyCurrentPeriod_kept:
  assumes "i < length xs"
  shows "taxable (applyCurrentPeriod cp xs ! i) = taxable (xs ! i)"
    and "gross (applyCurrentPeriod cp xs ! i) = gross (xs ! i)"
  using assms by (cases cp; simp add: applyCurrentPeriod_None applyCurrentPeriod_nth)+

lemma k_code_month_taxable:
  assumes neg: "isNegativeAllowance (parseTaxCode taxCode)"
    and spec: "specialCodeType (parseTaxCode taxCode) = None"
    and fin: "annualSalary = Fin s" and i: "i < 12"
  shows "jle (taxable (monthlyBreakdown
                 (calculateTaxDetails td annualSalary taxCode cum cp) ! i))
             (jadd (gross (monthlyBreakdown
                      (calculateTaxDetails td annualSalary taxCode cum cp) ! i))
                   (preciseDivide
                      (jmul (annualGross (annualSummary
                               (calculateTaxDetails td annualSalary taxCode cum cp)))
                            (Fin (1 / 2)))
                      (Fin 12)))"
proof -
  define info where "info = parseTaxCode taxCode"
  define s' where "s' = max 0 s"
  define pa where "pa = capKCode (Fin s') info (calculatePersonalAllowance (Fin s') info td)"
  define r where "r = regions td (if isScottish info then Scotland else if isWelsh info then Wales else UK)"
  have s': "0 \<le> s'" by (simp add: s'_def)
  have ne: "taxCode \<noteq> []" using neg by (auto simp add: parseTaxCode_def)
  have clamp: "(if isNaN annualSalary \<or> jless annualSalary (Fin 0) then Fin 0 else annualSalary) = Fin s'"
    by (simp add: fin s'_def max_def)
  have res: "taxable (monthlyBreakdown (calculateTaxDetails td annualSalary taxCode cum cp) ! i)
        = taxable (monthDetail cum r (preciseDivide (Fin s') (Fin 12)) (preciseDivide pa (Fin 12)) i)"
    "gross (monthlyBreakdown (calculateTaxDetails td annualSalary taxCode cum cp) ! i)
        = preciseDivide (Fin s') (Fin 12)"
    "annualGross (annualSummary (calculateTaxDetails td annualSalary taxCode cum cp)) = Fin s'"
    using i ne unfolding calculateTaxDetails_def Let_def clamp
    by (simp_all add: applyCurrentPeriod_kept monthDetail_fields info_def pa_def r_def del: upt.simps)
  obtain b where "baseAllowance info = Fin b"
    using parseTaxCode_Fin [OF spec] by (auto simp add: info_def)
  then have "\<not> isNaN (calculatePersonalAllowance (Fin s') info td)"
    by (rule calculatePersonalAllowance_not_NaN)
  with neg s' have "jle (Math_abs pa) (jmul (Fin s') (Fin (1 / 2)))"
    unfolding pa_def info_def by (intro capKCode_bound) simp_all
  then obtain p where p: "pa = Fin p" "\<bar>p\<bar> \<le> s' / 2"
    by (cases pa) simp_all
  obtain k :: int where k: "round2 (s' / 12) = of_int k / 100"
    using round2_hundredths by blast
  obtain j :: int where j: "round2 (p / 12) = of_int j / 100"
    using round2_hundredths by blast
  have g0: "0 \<le> round2 (s' / 12)" using s' by (intro round2_nonneg) simp
  have h0: "0 \<le> round2 (s' / 2 / 12)" using s' by (intro round2_nonneg) simp
  from p(2) have "- p / 12 \<le> s' / 2 / 12" by simp
  then have "round2 (- (p / 12)) \<le> round2 (s' / 2 / 12)" by (intro round2_mono) simp
  then have a: "- round2 (p / 12) \<le> round2 (s' / 2 / 12)" by (simp only: round2_neg)
  from g0 h0 a have bound: "max 0 (round2 (s' / 12) - round2 (p / 12))
      \<le> round2 (s' / 12) + round2 (s' / 2 / 12)" by simp
  have "taxable (monthDetail cum r (Fin (round2 (s' / 12))) (Fin (round2 (p / 12))) i)
      = Fin (max 0 (round2 (s' / 12) - round2 (p / 12)))"
    by (rule monthDetail_taxable [OF k j])
  with bound show ?thesis unfolding res by (simp add: p(1) preciseDivide_def)
qed

section \<open>Scenario: salary 50000 under code 1257L\<close>

text \<open>
  Claim C1. For \<^verbatim>\<open>annualSalary = 50000\<close>, tax code \<^verbatim>\<open>1257L\<close> and \<^verbatim>\<open>isCumulative = true\<close> the
  specification expects a total annual income tax of about 7486. With the repository's
  2023/24 table \<open>UK_TAX_BANDS\<close> the orchestrator returns 2426.68: the allowance is taken off
  the gross pay, and the 0 percent band of the table is then applied to what is left, and
  each month's tax is the year-to-date tax on unprorated annual bands divided by the month
  number. The displayed \<^verbatim>\<open>incomeTaxBands\<close> of the same result do total 7486.
\<close>

theorem standard_code_total_income_tax:
  "totalIncomeTax (annualSummary
     (calculateTaxDetails taxYearData_2023_24 (Fin 50000) ''1257L'' True None)) = Fin (242668 / 100)"
  by code_simp

lemma standard_code_income_tax_bands:
  "map tax (incomeTaxBands
     (calculateTaxDetails taxYearData_2023_24 (Fin 50000) ''1257L'' True None)) = [Fin 0, Fin 7486]"
  by code_simp

section \<open>K-codes in the parser\<close>

text \<open>
  Claim C2. A K-code \<^verbatim>\<open>K\<close>, \<^verbatim>\<open>SK\<close> or \<^verbatim>\<open>CK\<close> followed by digits \<open>N\<close> should parse to the
  base allowance \<open>- (N * 10)\<close> with \<open>isNegativeAllowance\<close> set. \<^verbatim>\<open>parseBaseAllowance\<close> strips
  the prefixes \<^verbatim>\<open>SK\<close>, \<^verbatim>\<open>S\<close>, \<^verbatim>\<open>C\<close>, \<^verbatim>\<open>K\<close> and has no case for \<^verbatim>\<open>CK\<close>: the Welsh K-code
  \<^verbatim>\<open>CK100\<close> gets the prefix \<^verbatim>\<open>C\<close> and the positive allowance 1000, flagged negative.
\<close>

theorem welsh_k_code_positive_allowance:
  "baseAllowance (parseTaxCode ''CK100'') = Fin 1000
   \<and> isNegativeAllowance (parseTaxCode ''CK100'')
   \<and> isValid (validateTaxCode ''CK100'')"
  by code_simp

section \<open>The static UK band table\<close>

text \<open>
  Claim C4. The bands of a table should be contiguous: the \<^verbatim>\<open>from\<close> of each band equal
  to the \<^verbatim>\<open>to\<close> of the band before. In \<open>UK_TAX_BANDS\<close> the first band ends at 12570 and
  the second starts at 12571 (and so on), so the table is not contiguous, and the band
  engine, whose width of a band is \<^verbatim>\<open>to - from\<close>, gives the basic-rate band the width
  37699.
\<close>

theorem UK_TAX_BANDS_not_contiguous:
  "\<not> contiguousBands UK_TAX_BANDS
   \<and> bandTo (UK_TAX_BANDS ! 0) = Num (Fin 12570)
   \<and> bandFrom (UK_TAX_BANDS ! 1) = Fin 12571
   \<and> map amount (taxBandsLoop UK_TAX_BANDS (Fin 60000)) = [Fin 12570, Fin 37699, Fin 9731]"
  by code_simp

lemma UK_TAX_BANDS_ascending:
  "map bandFrom UK_TAX_BANDS = [Fin 0, Fin 12571, Fin 50271, Fin 125141]
   \<and> coversFromZero UK_TAX_BANDS"
  by code_simp

section \<open>Empty tax code\<close>

text \<open>
  Claim C7. The empty tax code is equivalent to \<^verbatim>\<open>1257L\<close>: both parse to the same
  descriptor (base allowance 12570, UK region, no flags), and the orchestrator returns the
  same result for salary 50000, cumulative, under either, whatever the tax-year data and
  the current period.
\<close>

theorem empty_code_is_1257L:
  "parseTaxCode [] = parseTaxCode ''1257L''
   \<and> parseTaxCode [] =
       \<lparr>baseAllowance = Fin 12570, isScottish = False, isWelsh = False,
        isNegativeAllowance = False, hasMarriageAllowance = False,
        marriageAllowanceAmount = Fin 0, specialCodeType = None, taxRate = None,
        isNonCumulative = False\<rparr>
   \<and> calculateTaxDetails taxYearData (Fin 50000) [] True currentPeriod
       = calculateTaxDetails taxYearData (Fin 50000) ''1257L'' True currentPeriod"
proof -
  have "parseTaxCode ''1257L'' = parseTaxCode []"
    by code_simp
  moreover have "parseTaxCode [] =
       \<lparr>baseAllowance = Fin 12570, isScottish = False, isWelsh = False,
        isNegativeAllowance = False, hasMarriageAllowance = False,
        marriageAllowanceAmount = Fin 0, specialCodeType = None, taxRate = None,
        isNonCumulative = False\<rparr>"
    by (simp add: parseTaxCode_def)
  moreover have "calculateTaxDetails taxYearData (Fin 50000) [] True currentPeriod
       = calculateTaxDetails taxYearData (Fin 50000) ''1257L'' True currentPeriod"
    by (simp add: calculateTaxDetails_def)
  ultimately show ?thesis by simp
qed

section \<open>National Insurance is monotone\<close>

text \<open>
  Claim C6. \<^verbatim>\<open>calculateNI\<close> is non-decreasing in the monthly pay from 0 upwards
  (\<^verbatim>\<open>Infinity\<close> included), returns exactly 0 for every pay at or below the monthly primary
  threshold, and returns 0 for every non-positive or \<^verbatim>\<open>NaN\<close> input.
\<close>

theorem calculateNI_monotone_and_zero:
  "(jle (Fin 0) x \<and> jle x y \<longrightarrow> jle (calculateNI x) (calculateNI y))
   \<and> (jle x (MONTHLY (PRIMARY_THRESHOLD NI_THRESHOLDS)) \<longrightarrow> calculateNI x = Fin 0)
   \<and> (jle x (Fin 0) \<or> isNaN x \<longrightarrow> calculateNI x = Fin 0)"
  using calculateNI_mono [of x y] calculateNI_below_threshold [of x] calculateNI_nonpositive [of x]
  by blast

theorem calculateNI_monotone_and_zero_witness:
  "jle (Fin 0) (Fin 2000) \<and> jle (Fin 2000) (Fin 5000)
   \<and> jle (calculateNI (Fin 2000)) (calculateNI (Fin 5000))
   \<and> jle (Fin 800) (MONTHLY (PRIMARY_THRESHOLD NI_THRESHOLDS)) \<and> calculateNI (Fin 800) = Fin 0
   \<and> jle (Fin (- 100)) (Fin 0) \<and> calculateNI (Fin (- 100)) = Fin 0
   \<and> isNaN NaN \<and> calculateNI NaN = Fin 0"
  using calculateNI_monotone_and_zero [of "Fin 2000" "Fin 5000"]
    calculateNI_monotone_and_zero [of "Fin 800"]
    calculateNI_monotone_and_zero [of "Fin (- 100)"]
    calculateNI_monotone_and_zero [of NaN]
  by (simp add: NI_THRESHOLDS_monthly)

section \<open>National Insurance in the monthly breakdown\<close>

text \<open>
  Claim C5, as stated: each month's \<^verbatim>\<open>nationalInsurance\<close> equals
  \<^verbatim>\<open>calculateNI(salary / 12)\<close>. The orchestrator passes \<^verbatim>\<open>monthlyGross\<close>, which is
  \<^verbatim>\<open>preciseDivide(salary, 12)\<close>: the twelfth rounded to two places. For the salary
  50398.95 the breakdown holds 377.21, and \<^verbatim>\<open>calculateNI\<close> of the unrounded twelfth
  4199.9125 is 377.22.
\<close>

theorem ni_of_unrounded_twelfth_differs:
  "nationalInsurance (monthlyBreakdown
      (calculateTaxDetails taxYearData_2023_24 (Fin (5039895 / 100)) ''1257L'' True None) ! 0)
     = Fin (37721 / 100)
   \<and> calculateNI (jdiv (Fin (5039895 / 100)) (Fin 12)) = Fin (37722 / 100)
   \<and> nationalInsurance (monthlyBreakdown
      (calculateTaxDetails taxYearData_2023_24 (Fin (5039895 / 100)) ''1257L'' True None) ! 0)
     \<noteq> calculateNI (jdiv (Fin (5039895 / 100)) (Fin 12))"
proof -
  have a: "calculateNI (preciseDivide (Fin (5039895 / 100)) (Fin 12)) = Fin (37721 / 100)"
    by code_simp
  have b: "calculateNI (jdiv (Fin (5039895 / 100)) (Fin 12)) = Fin (37722 / 100)"
    by code_simp
  have "(0::nat) < 12" by simp
  from monthly_national_insurance [OF this] a b show ?thesis by simp
qed

text \<open>
  Claim C5, amended. For every salary, tax code, tax-year data and current period, for
  both values of \<^verbatim>\<open>isCumulative\<close> and every month \<open>m\<close> from 1 to 12, the month's
  \<^verbatim>\<open>nationalInsurance\<close> equals \<^verbatim>\<open>calculateNI(preciseDivide(salary, 12))\<close>: it is computed
  from the flat monthly gross rounded to two places, is the same in all twelve months, and
  depends neither on the cumulative flag nor on other periods.
\<close>

theorem national_insurance_from_monthly_gross:
  assumes "1 \<le> m" and "m \<le> 12"
  shows "nationalInsurance
           (monthlyBreakdown (calculateTaxDetails taxYearData salary taxCode isCumulative currentPeriod)
              ! (m - 1))
         = calculateNI (preciseDivide salary (Fin 12))"
proof -
  from assms have "m - 1 < 12" by simp
  then show ?thesis by (rule monthly_national_insurance)
qed

theorem national_insurance_from_monthly_gross_witness:
  "(1::nat) \<le> 5 \<and> (5::nat) \<le> 12
   \<and> nationalInsurance
        (monthlyBreakdown
           (calculateTaxDetails taxYearData_2023_24 (Fin 50000) ''K500'' False
              (Some \<lparr>periodType = PMonth, periodNumber = 3\<rparr>)) ! (5 - 1))
      = Fin (3743 / 10)"
proof -
  have "calculateNI (preciseDivide (Fin 50000) (Fin 12)) = Fin (3743 / 10)"
    by code_simp
  with national_insurance_from_monthly_gross [of 5 taxYearData_2023_24 "Fin 50000" "''K500''" False
      "Some \<lparr>periodType = PMonth, periodNumber = 3\<rparr>"]
  show ?thesis by simp
qed

section \<open>The frame of the current-period override\<close>

text \<open>
  Claim C9. When \<^verbatim>\<open>currentPeriod\<close> is supplied, the annual summary is the one of the same
  call without it, the breakdown still has twelve months, and every month keeps its
  \<^verbatim>\<open>gross\<close>, \<^verbatim>\<open>taxFree\<close>, \<^verbatim>\<open>taxable\<close>, \<^verbatim>\<open>monthNumber\<close> and \<^verbatim>\<open>month\<close>. A month up to the
  current period, and every month when the period index is out of range, is unchanged
  altogether; a month after the current period takes the \<^verbatim>\<open>incomeTax\<close>,
  \<^verbatim>\<open>nationalInsurance\<close> and \<^verbatim>\<open>netPay\<close> of the current period's month. Here \<open>i\<close> is the
  index of the month, from 0.
\<close>

theorem current_period_frame:
  assumes "i < 12"
  shows
    "annualSummary (calculateTaxDetails taxYearData salary taxCode isCumulative (Some cp))
       = annualSummary (calculateTaxDetails taxYearData salary taxCode isCumulative None)
     \<and> incomeTaxBands (calculateTaxDetails taxYearData salary taxCode isCumulative (Some cp))
       = incomeTaxBands (calculateTaxDetails taxYearData salary taxCode isCumulative None)
     \<and> niBands (calculateTaxDetails taxYearData salary taxCode isCumulative (Some cp))
       = niBands (calculateTaxDetails taxYearData salary taxCode isCumulative None)
     \<and> length (monthlyBreakdown
          (calculateTaxDetails taxYearData salary taxCode isCumulative (Some cp))) = 12
     \<and> gross (monthlyBreakdown
          (calculateTaxDetails taxYearData salary taxCode isCumulative (Some cp)) ! i)
       = gross (monthlyBreakdown
          (calculateTaxDetails taxYearData salary taxCode isCumulative None) ! i)
     \<and> taxFree (monthlyBreakdown
          (calculateTaxDetails taxYearData salary taxCode isCumulative (Some cp)) ! i)
       = taxFree (monthlyBreakdown
          (calculateTaxDetails taxYearData salary taxCode isCumulative None) ! i)
     \<and> taxable (monthlyBreakdown
          (calculateTaxDetails taxYearData salary taxCode isCumulative (Some cp)) ! i)
       = taxable (monthlyBreakdown
          (calculateTaxDetails taxYearData salary taxCode isCumulative None) ! i)
     \<and> monthNumber (monthlyBreakdown
          (calculateTaxDetails taxYearData salary taxCode isCumulative (Some cp)) ! i)
       = monthNumber (monthlyBreakdown
          (calculateTaxDetails taxYearData salary taxCode isCumulative None) ! i)
     \<and> month (monthlyBreakdown
          (calculateTaxDetails taxYearData salary taxCode isCumulative (Some cp)) ! i)
       = month (monthlyBreakdown
          (calculateTaxDetails taxYearData salary taxCode isCumulative None) ! i)
     \<and> (periodIndexOf cp < 0 \<or> 12 \<le> periodIndexOf cp \<or> int i \<le> periodIndexOf cp \<longrightarrow>
          monthlyBreakdown
            (calculateTaxDetails taxYearData salary taxCode isCumulative (Some cp)) ! i
          = monthlyBreakdown
            (calculateTaxDetails taxYearData salary taxCode isCumulative None) ! i)
     \<and> (0 \<le> periodIndexOf cp \<and> periodIndexOf cp < int i \<longrightarrow>
          monthlyBreakdown
            (calculateTaxDetails taxYearData salary taxCode isCumulative (Some cp)) ! i
          = (monthlyBreakdown
               (calculateTaxDetails taxYearData salary taxCode isCumulative None) ! i)
            \<lparr>incomeTax := incomeTax (monthlyBreakdown
                 (calculateTaxDetails taxYearData salary taxCode isCumulative None)
                   ! nat (periodIndexOf cp)),
             nationalInsurance := nationalInsurance (monthlyBreakdown
                 (calculateTaxDetails taxYearData salary taxCode isCumulative None)
                   ! nat (periodIndexOf cp)),
             netPay := netPay (monthlyBreakdown
                 (calculateTaxDetails taxYearData salary taxCode isCumulative None)
                   ! nat (periodIndexOf cp))\<rparr>)"
  using assms
  by (simp add: calculateTaxDetails_def Let_def applyCurrentPeriod_length applyCurrentPeriod_nth
      applyCurrentPeriod_None del: upt.simps)

theorem current_period_frame_witness:
  "(5::nat) < 12
   \<and> periodIndexOf \<lparr>periodType = PWeek, periodNumber = 13\<rparr> = 2
   \<and> annualSummary (calculateTaxDetails taxYearData_2023_24 (Fin 50000) ''1257L'' True
        (Some \<lparr>periodType = PWeek, periodNumber = 13\<rparr>))
      = annualSummary (calculateTaxDetails taxYearData_2023_24 (Fin 50000) ''1257L'' True None)
   \<and> taxable (monthlyBreakdown (calculateTaxDetails taxYearData_2023_24 (Fin 50000) ''1257L'' True
        (Some \<lparr>periodType = PWeek, periodNumber = 13\<rparr>)) ! 5)
      = taxable (monthlyBreakdown
          (calculateTaxDetails taxYearData_2023_24 (Fin 50000) ''1257L'' True None) ! 5)
   \<and> incomeTax (monthlyBreakdown (calculateTaxDetails taxYearData_2023_24 (Fin 50000) ''1257L'' True
        (Some \<lparr>periodType = PWeek, periodNumber = 13\<rparr>)) ! 5)
      = incomeTax (monthlyBreakdown
          (calculateTaxDetails taxYearData_2023_24 (Fin 50000) ''1257L'' True None) ! 2)"
proof -
  have p: "periodIndexOf \<lparr>periodType = PWeek, periodNumber = 13\<rparr> = 2"
    by (simp add: periodIndexOf_def)
  have "(5::nat) < 12" by simp
  from current_period_frame [OF this, of taxYearData_2023_24 "Fin 50000" "''1257L''" True
      "\<lparr>periodType = PWeek, periodNumber = 13\<rparr>"] p
  show ?thesis by simp
qed

section \<open>The taper on a negative allowance\<close>

text \<open>
  Claim C10. For a descriptor with a negative base allowance (a K-code) and a salary
  strictly above \<^verbatim>\<open>paTaperThreshold\<close>, \<^verbatim>\<open>calculatePersonalAllowance\<close> returns 0: the
  reduction \<^verbatim>\<open>min(allowance, floor((salary - threshold) * taperRate))\<close> is the negative
  allowance itself. The taper rate of the tax-year data is taken not to be negative. The
  K-code block of the orchestrator, whose salary is never negative, then leaves the 0
  as it is.
\<close>

theorem negative_allowance_tapered_to_zero:
  assumes "baseAllowance taxCodeInfo = Fin b" and "b < 0"
    and "jless (paTaperThreshold (config taxYearData)) salary"
    and "\<not> jless (paTaperRate (config taxYearData)) (Fin 0)"
  shows "calculatePersonalAllowance salary taxCodeInfo taxYearData = Fin 0
         \<and> (jle (Fin 0) salary \<longrightarrow>
              capKCode salary taxCodeInfo
                (calculatePersonalAllowance salary taxCodeInfo taxYearData) = Fin 0)"
  using calculatePersonalAllowance_negative [OF assms] capKCode_zero [of salary taxCodeInfo]
  by simp

theorem negative_allowance_tapered_to_zero_witness:
  "baseAllowance (parseTaxCode ''K500'') = Fin (- 5000) \<and> (- 5000 :: rat) < 0
   \<and> jless (paTaperThreshold (config taxYearData_2023_24)) (Fin 120000)
   \<and> \<not> jless (paTaperRate (config taxYearData_2023_24)) (Fin 0)
   \<and> jle (Fin 0) (Fin 120000)
   \<and> calculatePersonalAllowance (Fin 120000) (parseTaxCode ''K500'') taxYearData_2023_24 = Fin 0
   \<and> capKCode (Fin 120000) (parseTaxCode ''K500'')
        (calculatePersonalAllowance (Fin 120000) (parseTaxCode ''K500'') taxYearData_2023_24) = Fin 0"
proof -
  have a: "baseAllowance (parseTaxCode ''K500'') = Fin (- 5000)"
    by code_simp
  have b: "(- 5000 :: rat) < 0" by simp
  have c: "jless (paTaperThreshold (config taxYearData_2023_24)) (Fin 120000)"
    by (simp add: taxYearData_2023_24_def)
  have d: "\<not> jless (paTaperRate (config taxYearData_2023_24)) (Fin 0)"
    by (simp add: taxYearData_2023_24_def)
  have e: "jle (Fin 0) (Fin 120000)" by simp
  note r = negative_allowance_tapered_to_zero [OF a b c d]
  from r have r1: "calculatePersonalAllowance (Fin 120000) (parseTaxCode ''K500'') taxYearData_2023_24 = Fin 0"
    by (rule conjunct1)
  from r e have r2: "capKCode (Fin 120000) (parseTaxCode ''K500'')
        (calculatePersonalAllowance (Fin 120000) (parseTaxCode ''K500'') taxYearData_2023_24) = Fin 0"
    by blast
  from a b c d e r1 r2 show ?thesis by blast
qed

section \<open>Special codes and K-codes exclude each other\<close>

text \<open>
  Claim C8, as stated for every input string: \<^verbatim>\<open>specialCodeType\<close> set and
  \<^verbatim>\<open>isNegativeAllowance\<close> true never hold in one descriptor. The parser sets the first
  when the code contains \<^verbatim>\<open>NT\<close> and the second when it contains \<^verbatim>\<open>K\<close>, so the string
  \<^verbatim>\<open>KNT\<close>, which the validator rejects, gets both.
\<close>

theorem special_and_negative_together:
  "specialCodeType (parseTaxCode ''KNT'') = Some ''NT''
   \<and> isNegativeAllowance (parseTaxCode ''KNT'')
   \<and> \<not> isValid (validateTaxCode ''KNT'')"
  by code_simp

text \<open>
  Claim C8, amended. For every input string that \<^verbatim>\<open>validateTaxCode\<close> accepts, the
  descriptor of \<^verbatim>\<open>parseTaxCode\<close> does not have \<^verbatim>\<open>specialCodeType\<close> set and
  \<^verbatim>\<open>isNegativeAllowance\<close> true together: it is a special code, a K-code, or a standard
  code (neither), and exactly one of the three.
\<close>

theorem valid_code_special_or_negative:
  assumes "isValid (validateTaxCode taxCode)"
  shows "\<not> (specialCodeType (parseTaxCode taxCode) \<noteq> None
            \<and> isNegativeAllowance (parseTaxCode taxCode))"
  using assms by (rule valid_code_exclusive)

theorem valid_code_special_or_negative_witness:
  "isValid (validateTaxCode ''SK475'')
   \<and> isNegativeAllowance (parseTaxCode ''SK475'')
   \<and> \<not> (specialCodeType (parseTaxCode ''SK475'') \<noteq> None
          \<and> isNegativeAllowance (parseTaxCode ''SK475''))"
proof -
  have v: "isValid (validateTaxCode ''SK475'')"
    by code_simp
  have n: "isNegativeAllowance (parseTaxCode ''SK475'')"
    by code_simp
  from valid_code_special_or_negative [OF v] v n show ?thesis by blast
qed

section \<open>The 50 percent limit of K-codes\<close>

text \<open>
  Claim C3. The tax of a K-code in a period should never exceed half of the gross pay of
  the period, the orchestrator clamping the negative allowance and the verification
  calculator clamping the final period tax to the smaller of the computed tax and half of
  the pay. The orchestrator does clamp the allowance (lemma \<open>orchestrator_allowance_cap\<close>),
  and lines 67 to 72 of the calculator would return that minimum (lemma \<open>finalTax_min\<close>).
  But the calculator reads \<^verbatim>\<open>incomeTaxBands\<close> from the promise of the call it did not
  await: for every amount, period, flag and tax code its callback throws a \<^verbatim>\<open>TypeError\<close>
  before the clamp, and no period tax is produced.
\<close>

theorem verification_calculator_throws:
  "calculation earnedAmount pType pNumber isCumulative taxCode = Inl TypeError"
  by (simp add: calculation_def promiseProperty_def)

lemma verification_calculator_throws_example:
  "calculation (Fin 1000) PMonth (Fin 1) True ''K500'' = Inl TypeError"
  by code_simp

end
